theory Spec2Isabelle
  imports Complex_Main
begin

section \<open>Values, exceptions and the world the scripts run in\<close>

text \<open>
  The scripts are Python. A Python \<open>str\<close> is modelled as a HOL \<open>string\<close> whose
  characters stand for the code points U+0000 to U+00FF; a Python \<open>int\<close> is an \<open>int\<close>.
  A parsed JSON document (the value of \<open>response.json()\<close>) is a \<open>json\<close>; Python's
  \<open>None\<close> is \<open>JNull\<close>. Floats are carried as rationals: the scripts only pass them on,
  test them for truth and hand them to the formatter.
\<close>

datatype json =
    JNull
  | JBool bool
  | JInt int
  | JFloat rat
  | JStr string
  | JList "json list"
  | JDict "(string \<times> json) list"

text \<open>Python's truth test \<open>bool(x)\<close>, as used by \<open>if not data\<close>.\<close>

fun truthy :: "json \<Rightarrow> bool" where
  "truthy JNull = False"
| "truthy (JBool b) = b"
| "truthy (JInt i) = (i \<noteq> 0)"
| "truthy (JFloat r) = (r \<noteq> 0)"
| "truthy (JStr s) = (s \<noteq> [])"
| "truthy (JList xs) = (xs \<noteq> [])"
| "truthy (JDict kvs) = (kvs \<noteq> [])"

text \<open>
  The exceptions the scripts can meet, each with the text \<open>str(e)\<close> gives (a
  \<open>KeyError\<close> holds the missing key). The first
  five are the \<open>requests.exceptions\<close> family: \<open>ConnectionError\<close>, \<open>Timeout\<close>,
  \<open>HTTPError\<close> (with the status code of its response), \<open>JSONDecodeError\<close> (raised by
  \<open>response.json()\<close>) and \<open>RequestException\<close> for every other member. The rest are
  built-in exceptions, which are not \<open>RequestException\<close>s.
\<close>

datatype py_exception =
    ConnectionError string
  | Timeout string
  | HTTPError nat string
  | JSONDecodeError string
  | RequestException string
  | KeyError string
  | TypeError string
  | ValueError string
  | AttributeError string
  | IndexError string
  | OverflowError string
  | EOFError
  | OSError string

definition apos :: string where
  "apos = [CHR 0x27]"

fun exc_str :: "py_exception \<Rightarrow> string" where
  "exc_str (ConnectionError m) = m"
| "exc_str (Timeout m) = m"
| "exc_str (HTTPError c m) = m"
| "exc_str (JSONDecodeError m) = m"
| "exc_str (RequestException m) = m"
| "exc_str (KeyError k) = apos @ k @ apos"
| "exc_str (TypeError m) = m"
| "exc_str (ValueError m) = m"
| "exc_str (AttributeError m) = m"
| "exc_str (IndexError m) = m"
| "exc_str (OverflowError m) = m"
| "exc_str EOFError = []"
| "exc_str (OSError m) = m"

text \<open>\<open>isinstance(e, (ConnectionError, Timeout))\<close> and \<open>isinstance(e, RequestException)\<close>.\<close>

fun is_network_error :: "py_exception \<Rightarrow> bool" where
  "is_network_error (ConnectionError m) = True"
| "is_network_error (Timeout m) = True"
| "is_network_error e = False"

fun is_request_exception :: "py_exception \<Rightarrow> bool" where
  "is_request_exception (ConnectionError m) = True"
| "is_request_exception (Timeout m) = True"
| "is_request_exception (HTTPError c m) = True"
| "is_request_exception (JSONDecodeError m) = True"
| "is_request_exception (RequestException m) = True"
| "is_request_exception e = False"

text \<open>
  What the remote end does with one HTTP call: the call itself raises, or a response
  arrives. A response has its status code, the text of the \<open>HTTPError\<close> that
  \<open>raise_for_status\<close> builds for it, and its body: either a JSON document or the
  decoder's complaint.
\<close>

datatype body = Json json | NotJson string

record response =
  status_code :: nat
  error_text :: string
  content :: body

datatype http_outcome = Fails py_exception | Responds response

text \<open>What opening and writing a file does: it works, or \<open>open\<close> raises, or the dump
  raises after the file was opened (and so truncated).\<close>

datatype fs_outcome = FsOk | OpenFails py_exception | DumpFails py_exception

text \<open>
  The surroundings are two oracles and a clock: \<open>net k\<close> is the outcome of the HTTP
  call number \<open>k\<close> of the run (counted from 0), \<open>fs t name\<close> the outcome of writing
  the file \<open>name\<close> at the moment the trace has \<open>t\<close> events, and \<open>clock\<close> the text of
  \<open>datetime.now().strftime('%Y-%m-%d %H:%M:%S')\<close> when the dashboard starts.
\<close>

record env =
  net :: "nat \<Rightarrow> http_outcome"
  fs :: "nat \<Rightarrow> string \<Rightarrow> fs_outcome"
  clock :: string

text \<open>
  A printed line is kept as its pieces: literal or interpolated text, a value with the
  format specification of its replacement field (not rendered: rendering a float is
  outside the model), or a string passed through \<open>str.title()\<close>.
\<close>

datatype piece = Lit string | Val json string | Title string

datatype level = INFO | WARNING | ERROR

text \<open>Everything the program does to the outside, in order.\<close>

datatype event =
    Log level string
  | HttpGet string "(string \<times> json) list" "int option"
  | HttpPost string json "int option"
  | Sleep nat
  | Print "piece list"
  | Prompt string
  | FileOpen string
  | FileWrite string json

text \<open>
  The state of a run: the lines still to be read from standard input, the trace of
  events so far, and the two module globals of part 5 (\<open>None\<close> for
  \<open>last_post_data\<close> means the name is not in \<open>globals()\<close>).
\<close>

record world =
  stdin :: "string list"
  trace :: "event list"
  OPENWEATHER_API_KEY :: "string option"
  last_post_data :: "json option"

datatype 'a outcome = Return 'a | Raise py_exception

type_synonym 'a prog = "world \<Rightarrow> 'a outcome \<times> world"

definition ret :: "'a \<Rightarrow> 'a prog" where
  "ret x w = (Return x, w)"

definition raise :: "py_exception \<Rightarrow> 'a prog" where
  "raise e w = (Raise e, w)"

text \<open>Sequencing: an exception of the first part skips the second.\<close>

definition bind :: "'a prog \<Rightarrow> ('a \<Rightarrow> 'b prog) \<Rightarrow> 'b prog" where
  "bind m f w = (case m w of (Return x, w') \<Rightarrow> f x w' | (Raise e, w') \<Rightarrow> (Raise e, w'))"

definition seq :: "unit prog \<Rightarrow> 'b prog \<Rightarrow> 'b prog" where
  "seq m n = bind m (\<lambda>_. n)"

text \<open>\<open>try: m  except ...\<close>: the handler picks the exceptions it catches (the first
  matching \<open>except\<close> clause), every other exception goes on.\<close>

definition try_except :: "'a prog \<Rightarrow> (py_exception \<Rightarrow> 'a prog option) \<Rightarrow> 'a prog" where
  "try_except m h w =
     (case m w of
        (Return x, w') \<Rightarrow> (Return x, w')
      | (Raise e, w') \<Rightarrow> (case h e of Some k \<Rightarrow> k w' | None \<Rightarrow> (Raise e, w')))"

text \<open>A run of statements, one after the other.\<close>

fun block :: "unit prog list \<Rightarrow> unit prog" where
  "block [] = ret ()"
| "block (m # ms) = seq m (block ms)"

definition emit :: "event \<Rightarrow> unit prog" where
  "emit ev w = (Return (), w\<lparr>trace := trace w @ [ev]\<rparr>)"

fun is_http :: "event \<Rightarrow> bool" where
  "is_http (HttpGet u p t) = True"
| "is_http (HttpPost u d t) = True"
| "is_http ev = False"

definition http_count :: "event list \<Rightarrow> nat" where
  "http_count tr = length (filter is_http tr)"

text \<open>\<open>requests.get(url, params=..., timeout=...)\<close>: the call is recorded, then the
  oracle says what comes back.\<close>

definition requests_get ::
  "env \<Rightarrow> string \<Rightarrow> (string \<times> json) list \<Rightarrow> int option \<Rightarrow> response prog" where
  "requests_get E url params timeout w =
     (let k = http_count (trace w);
          w' = w\<lparr>trace := trace w @ [HttpGet url params timeout]\<rparr>
      in case net E k of
           Fails e \<Rightarrow> (Raise e, w')
         | Responds r \<Rightarrow> (Return r, w'))"

text \<open>\<open>requests.post(url, json=..., timeout=...)\<close>.\<close>

definition requests_post :: "env \<Rightarrow> string \<Rightarrow> json \<Rightarrow> int option \<Rightarrow> response prog" where
  "requests_post E url payload timeout w =
     (let k = http_count (trace w);
          w' = w\<lparr>trace := trace w @ [HttpPost url payload timeout]\<rparr>
      in case net E k of
           Fails e \<Rightarrow> (Raise e, w')
         | Responds r \<Rightarrow> (Return r, w'))"

text \<open>\<open>response.raise_for_status()\<close>: an \<open>HTTPError\<close> for the codes 400 to 599.\<close>

definition raise_for_status :: "response \<Rightarrow> unit prog" where
  "raise_for_status r =
     (if 400 \<le> status_code r \<and> status_code r < 600
      then raise (HTTPError (status_code r) (error_text r))
      else ret ())"

text \<open>\<open>response.json()\<close>: the document, or a \<open>JSONDecodeError\<close>.\<close>

definition response_json :: "response \<Rightarrow> json prog" where
  "response_json r =
     (case content r of Json v \<Rightarrow> ret v | NotJson m \<Rightarrow> raise (JSONDecodeError m))"

text \<open>\<open>str(n)\<close> for an integer: decimal digits, a minus sign when negative.\<close>

function str_nat :: "nat \<Rightarrow> string" where
  "str_nat n =
     (if n < 10 then [''0123456789'' ! n]
      else str_nat (n div 10) @ [''0123456789'' ! (n mod 10)])"
  by pat_completeness auto
termination
  by (relation "measure id") auto

declare str_nat.simps [simp del]

definition str_int :: "int \<Rightarrow> string" where
  "str_int i = (if i < 0 then CHR ''-'' # str_nat (nat (- i)) else str_nat (nat i))"

section \<open>Python built-ins the scripts use\<close>

subsection \<open>Strings\<close>

text \<open>The whitespace \<open>str.strip()\<close> and \<open>int()\<close> skip, among the code points below 256:
  U+0009 to U+000D, U+001C to U+0020, U+0085 and U+00A0.\<close>

definition whitespace :: string where
  "whitespace = [CHR 0x09, CHR 0x0A, CHR 0x0B, CHR 0x0C, CHR 0x0D, CHR 0x1C, CHR 0x1D,
                 CHR 0x1E, CHR 0x1F, CHR 0x20, CHR 0x85, CHR 0xA0]"

definition py_isspace :: "char \<Rightarrow> bool" where
  "py_isspace c = (c \<in> set whitespace)"

definition py_strip :: "string \<Rightarrow> string" where
  "py_strip s = rev (dropWhile py_isspace (rev (dropWhile py_isspace s)))"

text \<open>\<open>str.lower()\<close>: the letters A to Z and U+00C0 to U+00DE (without the
  multiplication sign U+00D7) move up by 32.\<close>

definition upper_chars :: string where
  "upper_chars = ''ABCDEFGHIJKLMNOPQRSTUVWXYZ'' @
     [CHR 0xC0, CHR 0xC1, CHR 0xC2, CHR 0xC3, CHR 0xC4, CHR 0xC5, CHR 0xC6, CHR 0xC7,
      CHR 0xC8, CHR 0xC9, CHR 0xCA, CHR 0xCB, CHR 0xCC, CHR 0xCD, CHR 0xCE, CHR 0xCF,
      CHR 0xD0, CHR 0xD1, CHR 0xD2, CHR 0xD3, CHR 0xD4, CHR 0xD5, CHR 0xD6,
      CHR 0xD8, CHR 0xD9, CHR 0xDA, CHR 0xDB, CHR 0xDC, CHR 0xDD, CHR 0xDE]"

definition lower_chars :: string where
  "lower_chars = ''abcdefghijklmnopqrstuvwxyz'' @
     [CHR 0xE0, CHR 0xE1, CHR 0xE2, CHR 0xE3, CHR 0xE4, CHR 0xE5, CHR 0xE6, CHR 0xE7,
      CHR 0xE8, CHR 0xE9, CHR 0xEA, CHR 0xEB, CHR 0xEC, CHR 0xED, CHR 0xEE, CHR 0xEF,
      CHR 0xF0, CHR 0xF1, CHR 0xF2, CHR 0xF3, CHR 0xF4, CHR 0xF5, CHR 0xF6,
      CHR 0xF8, CHR 0xF9, CHR 0xFA, CHR 0xFB, CHR 0xFC, CHR 0xFD, CHR 0xFE]"

definition py_lower :: "string \<Rightarrow> string" where
  "py_lower s =
     map (\<lambda>c. case map_of (zip upper_chars lower_chars) c of Some d \<Rightarrow> d | None \<Rightarrow> c) s"

text \<open>
  \<open>str.isdigit()\<close> is true of a non-empty string whose characters all have the Unicode
  property Numeric_Type Digit or Decimal. Below 256 these are the ten decimal digits and
  the superscripts U+00B2, U+00B3 and U+00B9.
\<close>

definition is_decimal :: "char \<Rightarrow> bool" where
  "is_decimal c = (c \<in> set ''0123456789'')"

definition is_digit :: "char \<Rightarrow> bool" where
  "is_digit c = (is_decimal c \<or> c \<in> set [CHR 0xB2, CHR 0xB3, CHR 0xB9])"

definition py_isdigit :: "string \<Rightarrow> bool" where
  "py_isdigit s = (s \<noteq> [] \<and> list_all is_digit s)"

text \<open>
  \<open>int(s)\<close>: surrounding whitespace is dropped, one sign is allowed, then come decimal
  digits, with single underscores between digits; anything else is a \<open>ValueError\<close>.
  The superscript digits are not decimal digits. A well-formed string with more than
  4300 digits (the default of \<open>sys.get_int_max_str_digits()\<close>; leading zeros count,
  underscores do not) is a \<open>ValueError\<close> too. The message quotes the string as it is; a
  string that is both malformed and too long is reported as malformed.
\<close>

definition int_max_str_digits :: nat where
  "int_max_str_digits = 4300"

fun digits_ok :: "string \<Rightarrow> bool" where
  "digits_ok [] = False"
| "digits_ok [c] = is_decimal c"
| "digits_ok (c # d # r) =
     (is_decimal c \<and> (if d = CHR ''_'' then digits_ok r else digits_ok (d # r)))"

definition decimal_value :: "string \<Rightarrow> int" where
  "decimal_value s = foldl (\<lambda>acc c. 10 * acc + (int (of_char c) - 48)) 0 s"

definition py_int :: "string \<Rightarrow> py_exception + int" where
  "py_int s =
     (let t = py_strip s;
          neg = (t \<noteq> [] \<and> hd t = CHR ''-'');
          u = (if t \<noteq> [] \<and> (hd t = CHR ''-'' \<or> hd t = CHR ''+'') then tl t else t);
          ds = filter (\<lambda>c. c \<noteq> CHR ''_'') u
      in if \<not> digits_ok u
         then Inl (ValueError (''invalid literal for int() with base 10: '' @ apos @ s @ apos))
         else if int_max_str_digits < length ds
         then Inl (ValueError (''Exceeds the limit (4300 digits) for integer string ''
                               @ ''conversion: value has '' @ str_nat (length ds)
                               @ '' digits; use sys.set_int_max_str_digits() ''
                               @ ''to increase the limit''))
         else Inr ((if neg then - 1 else 1) * decimal_value ds))"

text \<open>\<open>sep.join(xs)\<close> and \<open>s.split(sep)\<close> for a one-character separator.\<close>

fun py_join :: "string \<Rightarrow> string list \<Rightarrow> string" where
  "py_join sep [] = []"
| "py_join sep [x] = x"
| "py_join sep (x # y # ys) = x @ sep @ py_join sep (y # ys)"

fun py_split :: "char \<Rightarrow> string \<Rightarrow> string list" where
  "py_split sep [] = [[]]"
| "py_split sep (c # cs) =
     (if c = sep then [] # py_split sep cs
      else (case py_split sep cs of x # xs \<Rightarrow> (c # x) # xs | [] \<Rightarrow> [[c]]))"

definition nl :: string where
  "nl = [CHR 0x0A]"

subsection \<open>Console\<close>

text \<open>\<open>print(...)\<close> of one line, and \<open>input(prompt)\<close>: the prompt is shown, then a line
  is read; at the end of the input \<open>input\<close> raises \<open>EOFError\<close>.\<close>

definition print_line :: "piece list \<Rightarrow> unit prog" where
  "print_line ps = emit (Print ps)"

definition say :: "string \<Rightarrow> unit prog" where
  "say s = emit (Print [Lit s])"

definition input_line :: "string \<Rightarrow> string prog" where
  "input_line prompt w =
     (case stdin w of
        [] \<Rightarrow> (Raise EOFError, w\<lparr>trace := trace w @ [Prompt prompt]\<rparr>)
      | l # ls \<Rightarrow> (Return l, w\<lparr>stdin := ls, trace := trace w @ [Prompt prompt]\<rparr>))"

text \<open>A value of a sum type as a program: \<open>Inl\<close> raises.\<close>

definition lift :: "py_exception + 'a \<Rightarrow> 'a prog" where
  "lift r = (case r of Inl e \<Rightarrow> raise e | Inr x \<Rightarrow> ret x)"

subsection \<open>JSON documents as Python objects\<close>

fun type_name :: "json \<Rightarrow> string" where
  "type_name JNull = ''NoneType''"
| "type_name (JBool b) = ''bool''"
| "type_name (JInt i) = ''int''"
| "type_name (JFloat r) = ''float''"
| "type_name (JStr s) = ''str''"
| "type_name (JList xs) = ''list''"
| "type_name (JDict kvs) = ''dict''"

text \<open>The value of a key of a dictionary read from JSON: when the document repeats a
  key, the last one counts.\<close>

definition lookup :: "(string \<times> json) list \<Rightarrow> string \<Rightarrow> json option" where
  "lookup kvs k = map_of (rev kvs) k"

text \<open>\<open>d[k]\<close> for a string key: \<open>KeyError\<close> on a dictionary without the key,
  \<open>TypeError\<close> on everything that is not a dictionary.\<close>

definition subscript :: "json \<Rightarrow> string \<Rightarrow> json prog" where
  "subscript d k =
     (case d of
        JDict kvs \<Rightarrow> (case lookup kvs k of Some v \<Rightarrow> ret v | None \<Rightarrow> raise (KeyError k))
      | JList xs \<Rightarrow> raise (TypeError ''list indices must be integers or slices, not str'')
      | JStr s \<Rightarrow> raise (TypeError (''string indices must be integers, not 'str'' @ apos))
      | _ \<Rightarrow> raise (TypeError (apos @ type_name d @ apos @ '' object is not subscriptable'')))"

text \<open>\<open>d.get(k, default)\<close>: only a dictionary has the method.\<close>

definition dict_get :: "json \<Rightarrow> string \<Rightarrow> json \<Rightarrow> json prog" where
  "dict_get d k dflt =
     (case d of
        JDict kvs \<Rightarrow> ret (case lookup kvs k of Some v \<Rightarrow> v | None \<Rightarrow> dflt)
      | _ \<Rightarrow> raise (AttributeError (apos @ type_name d @ apos
                                     @ '' object has no attribute 'get'' @ apos)))"

text \<open>\<open>xs[0]\<close>.\<close>

definition first_item :: "json \<Rightarrow> json prog" where
  "first_item d =
     (case d of
        JList xs \<Rightarrow> (case xs of [] \<Rightarrow> raise (IndexError ''list index out of range'')
                               | x # _ \<Rightarrow> ret x)
      | JStr s \<Rightarrow> (case s of [] \<Rightarrow> raise (IndexError ''string index out of range'')
                             | c # _ \<Rightarrow> ret (JStr [c]))
      | JDict kvs \<Rightarrow> raise (KeyError ''0'')
      | _ \<Rightarrow> raise (TypeError (apos @ type_name d @ apos @ '' object is not subscriptable'')))"

text \<open>The items a \<open>for\<close> loop over the value visits: the elements of a list, the keys of
  a dictionary, the characters of a string; other values are not iterable.\<close>

definition py_iter :: "json \<Rightarrow> json list prog" where
  "py_iter d =
     (case d of
        JList xs \<Rightarrow> ret xs
      | JDict kvs \<Rightarrow> ret (map JStr (remdups (map fst kvs)))
      | JStr s \<Rightarrow> ret (map (\<lambda>c. JStr [c]) s)
      | _ \<Rightarrow> raise (TypeError (apos @ type_name d @ apos @ '' object is not iterable'')))"

text \<open>
  Replacement fields of f-strings. A field with a fixed-point specification (\<open>,.2f\<close>,
  \<open>+.2f\<close>, ...) accepts numbers (a \<open>bool\<close> is one), raises \<open>ValueError\<close> for a
  string and \<open>TypeError\<close> for the rest; a field that only aligns (\<open><15\<close>) accepts numbers
  and strings. A fixed-point field turns an integer into a float first, which raises
  \<open>OverflowError\<close> for an integer that rounds to \<open>2 ^ 1024\<close> or beyond, that is from
  \<open>2 ^ 1024 - 2 ^ 970\<close> on. The text of the field is not rendered.
\<close>

definition float_limit :: int where
  "float_limit = 2 ^ 1024 - 2 ^ 970"

definition format_f :: "json \<Rightarrow> string \<Rightarrow> piece prog" where
  "format_f v spec =
     (case v of
        JInt i \<Rightarrow>
          if \<bar>i\<bar> < float_limit then ret (Val v spec)
          else raise (OverflowError ''int too large to convert to float'')
      | JFloat r \<Rightarrow> ret (Val v spec)
      | JBool b \<Rightarrow> ret (Val v spec)
      | JStr s \<Rightarrow> raise (ValueError (''Unknown format code 'f' for object of type 'str'' @ apos))
      | _ \<Rightarrow> raise (TypeError (''unsupported format string passed to '' @ type_name v
                                @ ''.__format__'')))"

definition format_align :: "json \<Rightarrow> string \<Rightarrow> piece prog" where
  "format_align v spec =
     (case v of
        JInt i \<Rightarrow> ret (Val v spec)
      | JFloat r \<Rightarrow> ret (Val v spec)
      | JBool b \<Rightarrow> ret (Val v spec)
      | JStr s \<Rightarrow> ret (Val v spec)
      | _ \<Rightarrow> raise (TypeError (''unsupported format string passed to '' @ type_name v
                                @ ''.__format__'')))"

text \<open>\<open>x.title()\<close>: only a string has the method.\<close>

definition title_of :: "json \<Rightarrow> piece prog" where
  "title_of v =
     (case v of
        JStr s \<Rightarrow> ret (Title s)
      | _ \<Rightarrow> raise (AttributeError (apos @ type_name v @ apos
                                     @ '' object has no attribute 'title'' @ apos)))"

section \<open>Part 4: the request with retries\<close>

text \<open>The dictionary \<open>safe_api_request\<close> returns: \<open>{"success": True, "data": d}\<close> or
  \<open>{"success": False, "error": m}\<close>.\<close>

datatype api_result = Success json | Failure string

text \<open>The body of the \<open>try\<close> block of one attempt.\<close>

definition attempt_try :: "env \<Rightarrow> string \<Rightarrow> int \<Rightarrow> int \<Rightarrow> api_result prog" where
  "attempt_try E url timeout attempt =
     seq (emit (Log INFO (''Attempt '' @ str_int attempt @ '' for '' @ url)))
    (bind (requests_get E url [] (Some timeout)) (\<lambda>response.
     seq (raise_for_status response)
    (seq (emit (Log INFO (''Request successful ('' @ str_int (int (status_code response))
                          @ '') for '' @ url)))
    (bind (response_json response) (\<lambda>data.
     ret (Success data))))))"

text \<open>
  The \<open>for attempt in range(1, retries + 1)\<close> loop, over the attempts still to make.
  \<open>Some r\<close> is a \<open>return r\<close> inside the loop; \<open>None\<close> is the loop running out, after
  which the function ends without a \<open>return\<close>.
\<close>

fun attempts :: "env \<Rightarrow> string \<Rightarrow> int \<Rightarrow> int \<Rightarrow> int list \<Rightarrow> api_result option prog" where
  "attempts E url timeout retries [] w = (Return None, w)"
| "attempts E url timeout retries (attempt # rest) w =
     (case attempt_try E url timeout attempt w of
        (Return r, w1) \<Rightarrow> (Return (Some r), w1)
      | (Raise e, w1) \<Rightarrow>
          if is_network_error e then
            (let w2 = w1\<lparr>trace := trace w1 @
                        [Log WARNING (''Attempt '' @ str_int attempt
                           @ '' failed due to network issue: '' @ exc_str e)]\<rparr>
             in if attempt = retries then
                  (Return (Some (Failure (''Failed after '' @ str_int retries @ '' attempts''))),
                   w2\<lparr>trace := trace w2 @
                        [Log ERROR (''Request failed after '' @ str_int retries
                           @ '' attempts: '' @ url)]\<rparr>)
                else attempts E url timeout retries rest
                       (w2\<lparr>trace := trace w2 @ [Sleep 2]\<rparr>))
          else (case e of
             HTTPError status m \<Rightarrow>
               (Return (Some (Failure (''HTTP Error: '' @ str_int (int status)))),
                w1\<lparr>trace := trace w1 @
                     [Log ERROR (''HTTP error '' @ str_int (int status) @ '' for '' @ url)]\<rparr>)
           | _ \<Rightarrow>
               if is_request_exception e then
                 (Return (Some (Failure (''Request failed: '' @ exc_str e))),
                  w1\<lparr>trace := trace w1 @
                       [Log ERROR (''Request exception for '' @ url @ '': '' @ exc_str e)]\<rparr>)
               else (Raise e, w1)))"

text \<open>\<open>safe_api_request(url, timeout=5, retries=3)\<close>. The value is \<open>Some\<close> dictionary,
  or \<open>None\<close> when the function falls off its end.\<close>

definition safe_api_request :: "env \<Rightarrow> string \<Rightarrow> int \<Rightarrow> int \<Rightarrow> api_result option prog" where
  "safe_api_request E url timeout retries =
     seq (emit (Log INFO (''Request started: '' @ url)))
         (attempts E url timeout retries [1..retries])"

declare attempts.simps [simp del]

text \<open>What the claims about the retries count: the HTTP calls and the sleeps of a trace,
  and the two in their order.\<close>

fun is_sleep :: "event \<Rightarrow> bool" where
  "is_sleep (Sleep n) = True"
| "is_sleep ev = False"

definition sleep_count :: "event list \<Rightarrow> nat" where
  "sleep_count tr = length (filter is_sleep tr)"

definition effects :: "event list \<Rightarrow> event list" where
  "effects tr = filter (\<lambda>ev. is_http ev \<or> is_sleep ev) tr"

text \<open>A transient outcome: the call raised \<open>ConnectionError\<close> or \<open>Timeout\<close>.\<close>

definition transient :: "http_outcome \<Rightarrow> bool" where
  "transient out = (case out of Fails e \<Rightarrow> is_network_error e | Responds r \<Rightarrow> False)"

section \<open>Part 3: queries from user input\<close>

text \<open>The test \<open>not user_id.isdigit() or not (1 <= int(user_id) <= 10)\<close>: \<open>or\<close> evaluates
  its second operand, and so \<open>int\<close>, only when \<open>isdigit\<close> holds.\<close>

definition invalid_user_id :: "string \<Rightarrow> bool prog" where
  "invalid_user_id user_id =
     (if \<not> py_isdigit user_id then ret True
      else bind (lift (py_int user_id)) (\<lambda>n. ret (\<not> (1 \<le> n \<and> n \<le> 10))))"

text \<open>\<open>except requests.RequestException: m\<close>.\<close>

definition on_request_exception :: "(py_exception \<Rightarrow> 'a prog) \<Rightarrow> py_exception \<Rightarrow> 'a prog option" where
  "on_request_exception k e = (if is_request_exception e then Some (k e) else None)"

definition get_user_info :: "env \<Rightarrow> unit prog" where
  "get_user_info E =
     seq (say (''=== User Information Lookup ==='' @ nl))
    (bind (input_line ''Enter user ID (1-10): '') (\<lambda>user_id.
     bind (invalid_user_id user_id) (\<lambda>invalid.
       if invalid then say ''User ID must be a number!''
       else
         try_except
           (bind (requests_get E (''https://jsonplaceholder.typicode.com/users/'' @ user_id)
                    [] None) (\<lambda>response.
            seq (raise_for_status response)
           (bind (response_json response) (\<lambda>data.
            seq (say (nl @ ''--- User #'' @ user_id @ '' Info ---''))
           (bind (subscript data ''name'') (\<lambda>name.
            seq (print_line [Lit ''Name: '', Val name []])
           (bind (subscript data ''email'') (\<lambda>email.
            seq (print_line [Lit ''Email: '', Val email []])
           (bind (subscript data ''phone'') (\<lambda>phone.
            seq (print_line [Lit ''Phone: '', Val phone []])
           (bind (subscript data ''website'') (\<lambda>website.
            print_line [Lit ''Website: '', Val website []]))))))))))))
           (on_request_exception (\<lambda>e.
              say (nl @ ''User with ID '' @ user_id @ '' not found!''))))))"

text \<open>The loop \<open>for i, post in enumerate(posts, 1): print(f"{i}. {post['title']}")\<close>.\<close>

fun print_posts :: "int \<Rightarrow> json list \<Rightarrow> unit prog" where
  "print_posts i [] = ret ()"
| "print_posts i (post # posts) =
     bind (subscript post ''title'') (\<lambda>title.
     seq (print_line [Lit (str_int i @ ''. ''), Val title []])
         (print_posts (i + 1) posts))"

definition search_posts :: "env \<Rightarrow> unit prog" where
  "search_posts E =
     seq (say (nl @ ''=== Post Search ==='' @ nl))
    (bind (input_line ''Enter user ID to see their posts (1-10): '') (\<lambda>line.
     let user_id = py_strip line in
     bind (invalid_user_id user_id) (\<lambda>invalid.
       if invalid then say ''User ID must be numeric!''
       else
         try_except
           (bind (requests_get E ''https://jsonplaceholder.typicode.com/posts''
                    [(''userId'', JStr user_id)] None) (\<lambda>response.
            seq (raise_for_status response)
           (bind (response_json response) (\<lambda>posts.
            if truthy posts then
              seq (say (nl @ ''--- Posts by User #'' @ user_id @ '' ---''))
             (bind (py_iter posts) (\<lambda>items. print_posts 1 items))
            else say ''No posts found for this user.''))))
           (on_request_exception (\<lambda>e. say ''Error fetching posts.'')))))"

section \<open>Part 5: the dashboard\<close>

subsection \<open>Module globals\<close>

definition get_api_key :: "string option prog" where
  "get_api_key w = (Return (OPENWEATHER_API_KEY w), w)"

definition set_api_key :: "string option \<Rightarrow> unit prog" where
  "set_api_key k w = (Return (), w\<lparr>OPENWEATHER_API_KEY := k\<rparr>)"

definition get_last_post_data :: "json option prog" where
  "get_last_post_data w = (Return (last_post_data w), w)"

definition set_last_post_data :: "json \<Rightarrow> unit prog" where
  "set_last_post_data d w = (Return (), w\<lparr>last_post_data := Some d\<rparr>)"

text \<open>\<open>not OPENWEATHER_API_KEY\<close>: the variable is \<open>None\<close> or the empty string.\<close>

definition key_missing :: "string option \<Rightarrow> bool" where
  "key_missing k = (case k of None \<Rightarrow> True | Some s \<Rightarrow> s = [])"

text \<open>The statements the module runs when it is loaded:
  \<open>OPENWEATHER_API_KEY = os.environ.get("OPENWEATHER_API_KEY")\<close> and the warning.\<close>

definition module_init :: "(string \<Rightarrow> string option) \<Rightarrow> unit prog" where
  "module_init environ =
     seq (set_api_key (environ ''OPENWEATHER_API_KEY''))
    (bind get_api_key (\<lambda>key.
       if key_missing key
       then say ''Warning: OPENWEATHER_API_KEY not set! OpenWeatherMap requests may fail.''
       else ret ()))"

definition CITIES :: "(string \<times> rat \<times> rat) list" where
  "CITIES =
     [(''delhi'', 28.6139, 77.2090),
      (''mumbai'', 19.0760, 72.8777),
      (''bangalore'', 12.9716, 77.5946),
      (''chennai'', 13.0827, 80.2707),
      (''kolkata'', 22.5726, 88.3639),
      (''hyderabad'', 17.3850, 78.4867),
      (''new york'', 40.7128, - 74.0060),
      (''london'', 51.5074, - 0.1278),
      (''tokyo'', 35.6762, 139.6503),
      (''sydney'', - 33.8688, 151.2093),
      (''paris'', 48.8566, 2.3522),
      (''berlin'', 52.5200, 13.4050),
      (''dubai'', 25.276987, 55.296249),
      (''singapore'', 1.3521, 103.8198),
      (''toronto'', 43.6532, - 79.3832),
      (''san francisco'', 37.7749, - 122.4194),
      (''moscow'', 55.7558, 37.6173),
      (''beijing'', 39.9042, 116.4074),
      (''rio de janeiro'', - 22.9068, - 43.1729),
      (''cape town'', - 33.9249, 18.4241)]"

definition CRYPTO_IDS :: "(string \<times> string) list" where
  "CRYPTO_IDS =
     [(''bitcoin'', ''btc-bitcoin''),
      (''ethereum'', ''eth-ethereum''),
      (''dogecoin'', ''doge-dogecoin''),
      (''cardano'', ''ada-cardano''),
      (''solana'', ''sol-solana''),
      (''ripple'', ''xrp-xrp'')]"

text \<open>\<open>'=' * n\<close>, and the degree sign.\<close>

definition bar :: "nat \<Rightarrow> string" where
  "bar n = replicate n (CHR ''='')"

definition dashes :: "nat \<Rightarrow> string" where
  "dashes n = replicate n (CHR ''-'')"

definition deg :: string where
  "deg = [CHR 0xB0]"

subsection \<open>Fetching\<close>

text \<open>The three lines every fetching function has in its \<open>try\<close>:
  \<open>response = requests.get(...)\<close>, \<open>response.raise_for_status()\<close>,
  \<open>return response.json()\<close>.\<close>

definition fetch :: "env \<Rightarrow> string \<Rightarrow> (string \<times> json) list \<Rightarrow> int option \<Rightarrow> json prog" where
  "fetch E url params timeout =
     bind (requests_get E url params timeout) (\<lambda>response.
     seq (raise_for_status response)
         (response_json response))"

definition get_weather :: "env \<Rightarrow> string \<Rightarrow> json prog" where
  "get_weather E city_name =
     (let city_lower = py_strip (py_lower city_name) in
      case map_of CITIES city_lower of
        None \<Rightarrow>
          seq (say (nl @ ''City '' @ apos @ city_name @ apos @ '' not found.''))
         (seq (say (''Available cities: '' @ py_join '', '' (map fst CITIES)))
              (ret JNull))
      | Some (lat, lon) \<Rightarrow>
          try_except
            (fetch E ''https://api.open-meteo.com/v1/forecast''
               [(''latitude'', JFloat lat),
                (''longitude'', JFloat lon),
                (''current_weather'', JBool True),
                (''hourly'', JStr ''temperature_2m,relative_humidity_2m''),
                (''timezone'', JStr ''auto'')]
               (Some 10))
            (on_request_exception (\<lambda>e.
               seq (say (''Error fetching weather: '' @ exc_str e)) (ret JNull))))"

text \<open>\<open>open(filename, "w")\<close> and \<open>json.dump(data, f, indent=2)\<close>.\<close>

definition write_json :: "env \<Rightarrow> string \<Rightarrow> json \<Rightarrow> unit prog" where
  "write_json E filename data w =
     (case fs E (length (trace w)) filename of
        FsOk \<Rightarrow> (Return (), w\<lparr>trace := trace w @ [FileOpen filename, FileWrite filename data]\<rparr>)
      | OpenFails e \<Rightarrow> (Raise e, w)
      | DumpFails e \<Rightarrow> (Raise e, w\<lparr>trace := trace w @ [FileOpen filename]\<rparr>))"

definition save_to_json :: "env \<Rightarrow> json \<Rightarrow> string \<Rightarrow> unit prog" where
  "save_to_json E data filename =
     (if \<not> truthy data then say ''No data to save.''
      else
        try_except
          (seq (write_json E filename data)
               (say (nl @ ''Data successfully saved to '' @ apos @ filename @ apos)))
          (\<lambda>e. Some (say (''Failed to save data: '' @ exc_str e))))"

definition get_openweather :: "env \<Rightarrow> string \<Rightarrow> json prog" where
  "get_openweather E city_name =
     (let city = py_strip city_name in
      bind get_api_key (\<lambda>key.
      if key_missing key then
        seq (say ''No API key provided. Set OPENWEATHER_API_KEY environment variable.'')
            (ret JNull)
      else
        try_except
          (fetch E ''https://api.openweathermap.org/data/2.5/weather''
             [(''q'', JStr city),
              (''appid'', JStr (case key of Some k \<Rightarrow> k | None \<Rightarrow> [])),
              (''units'', JStr ''metric'')]
             (Some 10))
          (on_request_exception (\<lambda>e.
             seq (say (''Error fetching OpenWeatherMap data: '' @ exc_str e)) (ret JNull)))))"

definition weather_codes :: "(int \<times> string) list" where
  "weather_codes =
     [(0, ''Clear sky''),
      (1, ''Mainly clear''), (2, ''Partly cloudy''), (3, ''Overcast''),
      (45, ''Foggy''), (48, ''Depositing rime fog''),
      (51, ''Light drizzle''), (53, ''Moderate drizzle''), (55, ''Dense drizzle''),
      (61, ''Slight rain''), (63, ''Moderate rain''), (65, ''Heavy rain''),
      (71, ''Slight snow''), (73, ''Moderate snow''), (75, ''Heavy snow''),
      (95, ''Thunderstorm'')]"

text \<open>\<open>weather_codes.get(code, "Unknown")\<close>: a number finds the key it equals (a \<open>bool\<close>
  is 0 or 1), a string or \<open>None\<close> finds nothing, a list or a dictionary cannot be
  hashed.\<close>

definition code_text :: "int \<Rightarrow> string" where
  "code_text i = (case map_of weather_codes i of Some s \<Rightarrow> s | None \<Rightarrow> ''Unknown'')"

definition weather_condition :: "json \<Rightarrow> string prog" where
  "weather_condition code =
     (case code of
        JInt i \<Rightarrow> ret (code_text i)
      | JBool b \<Rightarrow> ret (code_text (if b then 1 else 0))
      | JFloat r \<Rightarrow>
          ret (case find (\<lambda>(i, s). of_int i = r) weather_codes of
                 Some (i, s) \<Rightarrow> s | None \<Rightarrow> ''Unknown'')
      | JList xs \<Rightarrow> raise (TypeError (''unhashable type: 'list'' @ apos))
      | JDict kvs \<Rightarrow> raise (TypeError (''unhashable type: 'dict'' @ apos))
      | _ \<Rightarrow> ret ''Unknown'')"

definition display_weather :: "env \<Rightarrow> string \<Rightarrow> unit prog" where
  "display_weather E city_name =
     bind (get_weather E city_name) (\<lambda>data.
     if \<not> truthy data then ret ()
     else
       bind (subscript data ''current_weather'') (\<lambda>current.
       block
         [say (nl @ bar 40),
          print_line [Lit ''  Weather in '', Title city_name],
          say (bar 40),
          bind (subscript current ''temperature'') (\<lambda>v.
            print_line [Lit ''  Temperature: '', Val v [], Lit (deg @ ''C'')]),
          bind (subscript current ''windspeed'') (\<lambda>v.
            print_line [Lit ''  Wind Speed: '', Val v [], Lit '' km/h'']),
          bind (subscript current ''winddirection'') (\<lambda>v.
            print_line [Lit ''  Wind Direction: '', Val v [], Lit deg]),
          bind (dict_get current ''weathercode'' (JInt 0)) (\<lambda>code.
          bind (weather_condition code) (\<lambda>condition.
            say (''  Condition: '' @ condition))),
          say (bar 40)]))"

definition display_openweather :: "env \<Rightarrow> string \<Rightarrow> unit prog" where
  "display_openweather E city_name =
     bind (get_openweather E city_name) (\<lambda>data.
     if \<not> truthy data then ret ()
     else
       bind (dict_get data ''main'' (JDict [])) (\<lambda>main.
       bind (dict_get data ''wind'' (JDict [])) (\<lambda>wind.
       bind (dict_get data ''weather'' (JList [])) (\<lambda>weather_list.
       bind (if truthy weather_list
             then bind (first_item weather_list) (\<lambda>x. subscript x ''description'')
             else ret (JStr ''Unknown'')) (\<lambda>condition.
       block
         [say (nl @ bar 40),
          print_line [Lit ''  OpenWeatherMap Weather in '', Title city_name],
          say (bar 40),
          bind (dict_get main ''temp'' (JStr ''N/A'')) (\<lambda>v.
            print_line [Lit ''  Temperature: '', Val v [], Lit (deg @ ''C'')]),
          bind (dict_get main ''humidity'' (JStr ''N/A'')) (\<lambda>v.
            print_line [Lit ''  Humidity: '', Val v [], Lit ''%'']),
          bind (dict_get wind ''speed'' (JStr ''N/A'')) (\<lambda>v.
            print_line [Lit ''  Wind Speed: '', Val v [], Lit '' m/s'']),
          bind (title_of condition) (\<lambda>c.
            print_line [Lit ''  Condition: '', c]),
          say (bar 40)])))))"

definition get_crypto_price :: "env \<Rightarrow> string \<Rightarrow> json prog" where
  "get_crypto_price E coin_name =
     (let coin_lower = py_strip (py_lower coin_name);
          coin_id = (case map_of CRYPTO_IDS coin_lower of Some i \<Rightarrow> i | None \<Rightarrow> coin_lower)
      in try_except
           (fetch E (''https://api.coinpaprika.com/v1/tickers/'' @ coin_id) [] (Some 10))
           (on_request_exception (\<lambda>e.
              seq (say (''Error fetching crypto data: '' @ exc_str e)) (ret JNull))))"

text \<open>One turn of the loop of \<open>compare_cryptos\<close>; its \<open>except KeyError\<close> catches nothing
  else.\<close>

definition compare_row :: "env \<Rightarrow> string \<Rightarrow> unit prog" where
  "compare_row E coin =
     bind (get_crypto_price E coin) (\<lambda>data.
     if data = JNull then
       print_line [Val (JStr coin) ''<15'', Val (JStr ''N/A'') ''>15'', Val (JStr ''N/A'') ''>15'']
     else
       try_except
         (bind (subscript data ''quotes'') (\<lambda>quotes.
          bind (subscript quotes ''USD'') (\<lambda>usd.
          bind (subscript usd ''price'') (\<lambda>price.
          bind (subscript usd ''percent_change_24h'') (\<lambda>change_24h.
          bind (subscript data ''symbol'') (\<lambda>symbol.
          bind (format_align symbol ''<15'') (\<lambda>p1.
          bind (format_f price ''>14,.2f'') (\<lambda>p2.
          bind (format_f change_24h ''>14.2f'') (\<lambda>p3.
            print_line [p1, Lit ''$'', p2, p3, Lit ''%''])))))))))
         (\<lambda>e. case e of
                 KeyError k \<Rightarrow>
                   Some (print_line [Val (JStr coin) ''<15'', Val (JStr ''Error'') ''>15'',
                                     Val (JStr ''Error'') ''>15''])
               | _ \<Rightarrow> None))"

definition compare_cryptos :: "env \<Rightarrow> string list \<Rightarrow> unit prog" where
  "compare_cryptos E coin_list =
     block
       [say (nl @ bar 55),
        say ''   Crypto Price Comparison'',
        say (bar 55),
        print_line [Val (JStr ''Coin'') ''<15'', Val (JStr ''Price USD'') ''>15'',
                    Val (JStr ''24h Change'') ''>15''],
        say (dashes 55),
        block (map (compare_row E) coin_list),
        say (bar 55)]"

definition display_crypto :: "env \<Rightarrow> string \<Rightarrow> unit prog" where
  "display_crypto E coin_name =
     bind (get_crypto_price E coin_name) (\<lambda>data.
     if \<not> truthy data then
       block
         [say (nl @ ''Coin '' @ apos @ coin_name @ apos @ '' not found.''),
          say (''Available: '' @ py_join '', '' (map fst CRYPTO_IDS))]
     else
       bind (subscript data ''quotes'') (\<lambda>quotes.
       bind (subscript quotes ''USD'') (\<lambda>usd.
       block
         [say (nl @ bar 40),
          bind (subscript data ''name'') (\<lambda>name.
          bind (subscript data ''symbol'') (\<lambda>symbol.
            print_line [Lit ''  '', Val name [], Lit '' ('', Val symbol [], Lit '')''])),
          say (bar 40),
          bind (subscript usd ''price'') (\<lambda>v. bind (format_f v '',.2f'') (\<lambda>p.
            print_line [Lit ''  Price: $'', p])),
          bind (subscript usd ''market_cap'') (\<lambda>v. bind (format_f v '',.0f'') (\<lambda>p.
            print_line [Lit ''  Market Cap: $'', p])),
          bind (subscript usd ''volume_24h'') (\<lambda>v. bind (format_f v '',.0f'') (\<lambda>p.
            print_line [Lit ''  24h Volume: $'', p])),
          say ''  '',
          bind (subscript usd ''percent_change_1h'') (\<lambda>v. bind (format_f v ''+.2f'') (\<lambda>p.
            print_line [Lit ''  1h Change:  '', p, Lit ''%''])),
          bind (subscript usd ''percent_change_24h'') (\<lambda>v. bind (format_f v ''+.2f'') (\<lambda>p.
            print_line [Lit ''  24h Change: '', p, Lit ''%''])),
          bind (subscript usd ''percent_change_7d'') (\<lambda>v. bind (format_f v ''+.2f'') (\<lambda>p.
            print_line [Lit ''  7d Change:  '', p, Lit ''%''])),
          say (bar 40)])))"

definition get_top_cryptos :: "env \<Rightarrow> int \<Rightarrow> json prog" where
  "get_top_cryptos E limit =
     try_except
       (fetch E ''https://api.coinpaprika.com/v1/tickers'' [(''limit'', JInt limit)] (Some 10))
       (on_request_exception (\<lambda>e. seq (say (''Error: '' @ exc_str e)) (ret JNull)))"

definition create_post :: "env \<Rightarrow> unit prog" where
  "create_post E =
     seq (say (nl @ ''=== Create a New Post ===''))
    (bind (input_line ''Enter post title: '') (\<lambda>line1.
     bind (input_line ''Enter post body: '') (\<lambda>line2.
     let title = py_strip line1; body = py_strip line2 in
     if title = [] \<or> body = [] then say ''Title and body cannot be empty.''
     else
       try_except
         (bind (requests_post E ''https://jsonplaceholder.typicode.com/posts''
                  (JDict [(''title'', JStr title), (''body'', JStr body)]) (Some 5)) (\<lambda>response.
          seq (raise_for_status response)
         (bind (response_json response) (\<lambda>data.
          seq (set_last_post_data data)
         (block
            [say (nl @ ''Post successfully created!''),
             bind (dict_get data ''id'' JNull) (\<lambda>v. print_line [Lit ''Post ID: '', Val v []]),
             bind (dict_get data ''title'' JNull) (\<lambda>v. print_line [Lit ''Title: '', Val v []]),
             bind (dict_get data ''body'' JNull) (\<lambda>v. print_line [Lit ''Body: '', Val v []])])))))
         (on_request_exception (\<lambda>e. say (''Failed to create post: '' @ exc_str e))))))"

text \<open>One turn of the loop of \<open>display_top_cryptos\<close>.\<close>

definition top_row :: "json \<Rightarrow> unit prog" where
  "top_row coin =
     bind (subscript coin ''quotes'') (\<lambda>quotes.
     bind (subscript quotes ''USD'') (\<lambda>usd.
     bind (subscript usd ''percent_change_24h'') (\<lambda>change.
     bind (format_f change ''+.2f'') (\<lambda>change_str.
     bind (subscript coin ''rank'') (\<lambda>rank.
     bind (format_align rank ''<6'') (\<lambda>p1.
     bind (subscript coin ''name'') (\<lambda>name.
     bind (format_align name ''<15'') (\<lambda>p2.
     bind (subscript usd ''price'') (\<lambda>price.
     bind (format_f price ''>12,.2f'') (\<lambda>p3.
       print_line [Lit ''  '', p1, p2, Lit ''$'', p3, Lit ''  '', change_str, Lit ''%'']))))))))))"

definition display_top_cryptos :: "env \<Rightarrow> unit prog" where
  "display_top_cryptos E =
     bind (get_top_cryptos E 5) (\<lambda>data.
     if \<not> truthy data then ret ()
     else
       block
         [say (nl @ bar 55),
          say ''  Top 5 Cryptocurrencies by Market Cap'',
          say (bar 55),
          print_line [Lit ''  '', Val (JStr ''Rank'') ''<6'', Val (JStr ''Name'') ''<15'',
                      Val (JStr ''Price'') ''<15'', Lit ''24h Change''],
          say (''  '' @ dashes 50),
          bind (py_iter data) (\<lambda>coins. block (map top_row coins)),
          say (bar 55)])"

subsection \<open>The menu loop\<close>

datatype flow = Continue | Break

definition menu_lines :: "string list" where
  "menu_lines =
     [nl @ ''Options:'',
      ''  1. Check Weather'',
      ''  2. Check Crypto Price'',
      ''  3. View Top 5 Cryptos'',
      ''  4. Quick Dashboard (Delhi + Bitcoin)'',
      ''  5. Compare Multiple Cryptos'',
      ''  6. Create a New Post'',
      ''  7. Save Results to JSON'',
      ''  8. OpenWeatherMap Weather'',
      ''  9. Exit'']"

definition print_menu :: "unit prog" where
  "print_menu = block (map say menu_lines)"

text \<open>The branch \<open>choice == "7"\<close>.\<close>

definition save_results :: "env \<Rightarrow> unit prog" where
  "save_results E =
     block
       [say (nl @ ''Options to save data:''),
        say ''1. Crypto Data'',
        say ''2. Weather Data'',
        say ''3. Last POST Response'',
        bind (input_line ''Select (1-3): '') (\<lambda>line.
        let sub_choice = py_strip line in
        if sub_choice = ''1'' then
          bind (input_line ''Enter crypto name to save: '') (\<lambda>line'.
          let coin = py_strip line' in
          bind (get_crypto_price E coin) (\<lambda>data.
          save_to_json E data (coin @ ''_data.json'')))
        else if sub_choice = ''2'' then
          bind (input_line ''Enter city name to save: '') (\<lambda>line'.
          let city = py_strip line' in
          bind (get_weather E city) (\<lambda>data.
          save_to_json E data (city @ ''_weather.json'')))
        else if sub_choice = ''3'' then
          bind get_last_post_data (\<lambda>slot.
          case slot of
            Some data \<Rightarrow> save_to_json E data ''last_post.json''
          | None \<Rightarrow> say ''No POST data available to save.'')
        else say ''Invalid choice.'')]"

text \<open>The \<open>if\<close>/\<open>elif\<close> chain of the loop body, for the choice read.\<close>

definition dashboard_choice :: "env \<Rightarrow> string \<Rightarrow> flow prog" where
  "dashboard_choice E choice =
     (if choice = ''1'' then
        seq (say (nl @ ''Available: '' @ py_join '', '' (map fst CITIES)))
       (bind (input_line ''Enter city name: '') (\<lambda>city.
        seq (display_weather E city) (ret Continue)))
      else if choice = ''2'' then
        seq (say (nl @ ''Available: '' @ py_join '', '' (map fst CRYPTO_IDS)))
       (bind (input_line ''Enter crypto name: '') (\<lambda>coin.
        seq (display_crypto E coin) (ret Continue)))
      else if choice = ''3'' then
        seq (display_top_cryptos E) (ret Continue)
      else if choice = ''4'' then
        seq (display_weather E ''delhi'')
       (seq (display_crypto E ''bitcoin'') (ret Continue))
      else if choice = ''5'' then
        seq (say (nl @ ''Available cryptos: '' @ py_join '', '' (map fst CRYPTO_IDS)))
       (bind (input_line ''Enter coin names separated by commas: '') (\<lambda>coins_input.
        let coins = filter (\<lambda>c. c \<noteq> []) (map py_strip (py_split (CHR '','') coins_input)) in
        seq (if coins \<noteq> [] then compare_cryptos E coins else say ''No valid coins entered.'')
            (ret Continue)))
      else if choice = ''6'' then
        seq (create_post E) (ret Continue)
      else if choice = ''7'' then
        seq (save_results E) (ret Continue)
      else if choice = ''8'' then
        bind (input_line ''Enter city name: '') (\<lambda>line.
        seq (display_openweather E (py_strip line)) (ret Continue))
      else if choice = ''9'' then
        seq (say (nl @ ''Goodbye! Happy coding!'')) (ret Break)
      else
        seq (say ''Invalid option. Try again.'') (ret Continue))"

text \<open>One turn of \<open>while True\<close>: the menu, the choice, its branch.\<close>

definition dashboard_turn :: "env \<Rightarrow> flow prog" where
  "dashboard_turn E =
     seq print_menu
    (bind (input_line (nl @ ''Select (1-9): '')) (\<lambda>line.
     dashboard_choice E (py_strip line)))"

subsection \<open>The loop ends\<close>

text \<open>
  \<open>while True\<close> runs until the choice 9 or an exception. Every turn reads the choice with
  \<open>input\<close>, which takes a line from the input or raises \<open>EOFError\<close>, and nothing gives
  lines back: the lines left to read measure the loop. The facts below say so, function
  by function. \<open>stateless\<close> programs leave the world alone; \<open>inv R\<close> programs
  relate the world before to the world after by \<open>R\<close>.
\<close>

definition stateless :: "'a prog \<Rightarrow> bool" where
  "stateless m = (\<exists>r. \<forall>w. m w = (r, w))"

definition order_like :: "(world \<Rightarrow> world \<Rightarrow> bool) \<Rightarrow> bool" where
  "order_like R = ((\<forall>w. R w w) \<and> (\<forall>a b c. R a b \<longrightarrow> R b c \<longrightarrow> R a c))"

definition inv :: "(world \<Rightarrow> world \<Rightarrow> bool) \<Rightarrow> 'a prog \<Rightarrow> bool" where
  "inv R m = (\<forall>w. R w (snd (m w)))"

named_theorems stateless_intros
named_theorems inv_intros

lemma stateless_ret [stateless_intros]: "stateless (ret x)"
  by (auto simp: stateless_def ret_def)

lemma stateless_raise [stateless_intros]: "stateless (raise e)"
  by (auto simp: stateless_def raise_def)

lemma stateless_lift [stateless_intros]: "stateless (lift r)"
  by (cases r) (auto simp: lift_def stateless_intros)

lemma stateless_bind:
  assumes "stateless m" and "\<And>x. stateless (f x)"
  shows "stateless (bind m f)"
proof -
  from assms(1) obtain r where r: "\<And>w. m w = (r, w)" by (auto simp: stateless_def)
  show ?thesis
  proof (cases r)
    case (Return x)
    from assms(2)[of x] obtain r' where "\<And>w. f x w = (r', w)" by (auto simp: stateless_def)
    with r Return show ?thesis by (auto simp: stateless_def bind_def)
  next
    case (Raise e)
    with r show ?thesis by (auto simp: stateless_def bind_def)
  qed
qed

lemma stateless_seq: "stateless m \<Longrightarrow> stateless n \<Longrightarrow> stateless (seq m n)"
  by (simp add: seq_def stateless_bind)

lemma stateless_raise_for_status [stateless_intros]: "stateless (raise_for_status r)"
  by (simp add: raise_for_status_def stateless_intros)

lemma stateless_response_json [stateless_intros]: "stateless (response_json r)"
  by (simp add: response_json_def stateless_intros split: body.splits)

lemma stateless_subscript [stateless_intros]: "stateless (subscript d k)"
  by (simp add: subscript_def stateless_intros split: json.splits option.splits)

lemma stateless_dict_get [stateless_intros]: "stateless (dict_get d k v)"
  by (simp add: dict_get_def stateless_intros split: json.splits)

lemma stateless_first_item [stateless_intros]: "stateless (first_item d)"
  by (simp add: first_item_def stateless_intros split: json.splits list.splits)

lemma stateless_py_iter [stateless_intros]: "stateless (py_iter d)"
  by (simp add: py_iter_def stateless_intros split: json.splits)

lemma stateless_format_f [stateless_intros]: "stateless (format_f v s)"
  by (simp add: format_f_def stateless_intros split: json.splits)

lemma stateless_format_align [stateless_intros]: "stateless (format_align v s)"
  by (simp add: format_align_def stateless_intros split: json.splits)

lemma stateless_title_of [stateless_intros]: "stateless (title_of v)"
  by (simp add: title_of_def stateless_intros split: json.splits)

lemma stateless_weather_condition [stateless_intros]: "stateless (weather_condition v)"
  by (simp add: weather_condition_def stateless_intros split: json.splits)

lemma stateless_invalid_user_id [stateless_intros]: "stateless (invalid_user_id s)"
  by (simp add: invalid_user_id_def stateless_intros stateless_bind)

lemma inv_stateless: "order_like R \<Longrightarrow> stateless m \<Longrightarrow> inv R m"
  by (auto simp: order_like_def stateless_def inv_def)

lemma inv_bind [inv_intros]:
  assumes "order_like R" and "inv R m" and "\<And>x. inv R (f x)"
  shows "inv R (bind m f)"
  unfolding inv_def
proof
  fix w
  obtain r w' where mw: "m w = (r, w')" by (cases "m w")
  with assms(2) have 1: "R w w'" by (auto simp: inv_def dest: spec[of _ w])
  show "R w (snd (bind m f w))"
  proof (cases r)
    case (Return x)
    from assms(3)[of x] have "R w' (snd (f x w'))" by (simp add: inv_def)
    with 1 assms(1) have "R w (snd (f x w'))" unfolding order_like_def by blast
    with mw Return show ?thesis by (simp add: bind_def)
  next
    case (Raise e)
    with mw 1 show ?thesis by (simp add: bind_def)
  qed
qed

lemma inv_seq [inv_intros]: "order_like R \<Longrightarrow> inv R m \<Longrightarrow> inv R n \<Longrightarrow> inv R (seq m n)"
  by (simp add: seq_def inv_bind)

lemma inv_try_except:
  assumes "order_like R" and "inv R m" and "\<And>e k. h e = Some k \<Longrightarrow> inv R k"
  shows "inv R (try_except m h)"
  unfolding inv_def
proof
  fix w
  obtain r w' where mw: "m w = (r, w')" by (cases "m w")
  with assms(2) have 1: "R w w'" by (auto simp: inv_def dest: spec[of _ w])
  show "R w (snd (try_except m h w))"
  proof (cases r)
    case (Return x)
    with mw 1 show ?thesis by (simp add: try_except_def)
  next
    case (Raise e)
    show ?thesis
    proof (cases "h e")
      case None
      with mw 1 Raise show ?thesis by (simp add: try_except_def)
    next
      case (Some k)
      from assms(3)[OF Some] have "R w' (snd (k w'))" by (simp add: inv_def)
      with 1 assms(1) have "R w (snd (k w'))" unfolding order_like_def by blast
      with mw Raise Some show ?thesis by (simp add: try_except_def)
    qed
  qed
qed

lemma inv_try_request [inv_intros]:
  "order_like R \<Longrightarrow> inv R m \<Longrightarrow> (\<And>e. inv R (g e)) \<Longrightarrow> inv R (try_except m (on_request_exception g))"
  by (rule inv_try_except) (auto simp: on_request_exception_def split: if_splits)

lemma inv_try_all [inv_intros]:
  "order_like R \<Longrightarrow> inv R m \<Longrightarrow> (\<And>e. inv R (g e)) \<Longrightarrow> inv R (try_except m (\<lambda>e. Some (g e)))"
  by (rule inv_try_except) auto

lemma inv_block_Nil [inv_intros]: "order_like R \<Longrightarrow> inv R (block [])"
  by (simp add: inv_stateless stateless_ret)

lemma inv_block_Cons [inv_intros]:
  "order_like R \<Longrightarrow> inv R m \<Longrightarrow> inv R (block ms) \<Longrightarrow> inv R (block (m # ms))"
  by (simp add: inv_seq)

lemma inv_block_map [inv_intros]:
  "order_like R \<Longrightarrow> (\<And>x. inv R (f x)) \<Longrightarrow> inv R (block (map f xs))"
  by (induction xs) (simp_all add: inv_seq inv_stateless stateless_ret)

lemma inv_case_option:
  "inv R a \<Longrightarrow> (\<And>x. inv R (f x)) \<Longrightarrow> inv R (case opt of None \<Rightarrow> a | Some x \<Rightarrow> f x)"
  by (simp split: option.splits)

lemma inv_case_prod:
  "(\<And>a b. inv R (f a b)) \<Longrightarrow> inv R (case p of (a, b) \<Rightarrow> f a b)"
  by (simp split: prod.splits)

lemma inv_if: "(c \<Longrightarrow> inv R a) \<Longrightarrow> (\<not> c \<Longrightarrow> inv R b) \<Longrightarrow> inv R (if c then a else b)"
  by simp

definition reads_on :: "world \<Rightarrow> world \<Rightarrow> bool" where
  "reads_on w w' = (length (stdin w') \<le> length (stdin w))"

lemma order_reads_on: "order_like reads_on"
  by (auto simp: order_like_def reads_on_def)

named_theorems reads_intros

lemma reads_prims [reads_intros]:
  "inv reads_on (emit ev)" "inv reads_on (say s)" "inv reads_on (print_line ps)"
  "inv reads_on (input_line p)" "inv reads_on (requests_get E u qs t)"
  "inv reads_on (requests_post E u d t)" "inv reads_on (write_json E f d)"
  "inv reads_on get_api_key" "inv reads_on (set_api_key k)"
  "inv reads_on get_last_post_data" "inv reads_on (set_last_post_data d)"
  by (auto simp: inv_def reads_on_def emit_def say_def print_line_def input_line_def
      requests_get_def requests_post_def write_json_def get_api_key_def set_api_key_def
      get_last_post_data_def set_last_post_data_def Let_def
      split: list.splits http_outcome.splits fs_outcome.splits)

lemmas reads_base = inv_intros[OF order_reads_on] inv_if inv_case_option inv_case_prod reads_prims
  stateless_intros[THEN inv_stateless[OF order_reads_on]]

lemma reads_fetch: "inv reads_on (fetch E u ps t)"
  unfolding fetch_def by (intro reads_base)

lemma reads_get_weather: "inv reads_on (get_weather E c)"
  unfolding get_weather_def Let_def by (intro reads_base reads_fetch)

lemma reads_save_to_json: "inv reads_on (save_to_json E d f)"
  unfolding save_to_json_def by (intro reads_base)

lemma reads_get_openweather: "inv reads_on (get_openweather E c)"
  unfolding get_openweather_def Let_def by (intro reads_base reads_fetch)

lemma reads_display_weather: "inv reads_on (display_weather E c)"
  unfolding display_weather_def by (intro reads_base reads_get_weather)

lemma reads_display_openweather: "inv reads_on (display_openweather E c)"
  unfolding display_openweather_def by (intro reads_base reads_get_openweather)

lemma reads_get_crypto_price: "inv reads_on (get_crypto_price E c)"
  unfolding get_crypto_price_def Let_def by (intro reads_base reads_fetch)

lemma reads_compare_row: "inv reads_on (compare_row E c)"
  unfolding compare_row_def
  by (intro reads_base reads_get_crypto_price inv_try_except[OF order_reads_on])
     (auto split: py_exception.splits intro: reads_base)

lemma reads_compare_cryptos: "inv reads_on (compare_cryptos E cs)"
  unfolding compare_cryptos_def by (intro reads_base reads_compare_row)

lemma reads_display_crypto: "inv reads_on (display_crypto E c)"
  unfolding display_crypto_def by (intro reads_base reads_get_crypto_price)

lemma reads_get_top_cryptos: "inv reads_on (get_top_cryptos E n)"
  unfolding get_top_cryptos_def by (intro reads_base reads_fetch)

lemma reads_create_post: "inv reads_on (create_post E)"
  unfolding create_post_def Let_def by (intro reads_base)

lemma reads_top_row: "inv reads_on (top_row c)"
  unfolding top_row_def by (intro reads_base)

lemma reads_display_top_cryptos: "inv reads_on (display_top_cryptos E)"
  unfolding display_top_cryptos_def by (intro reads_base reads_get_top_cryptos reads_top_row)

lemma reads_print_menu: "inv reads_on print_menu"
  unfolding print_menu_def by (intro reads_base)

lemma block_say:
  "block (map say ls) w = (Return (), w\<lparr>trace := trace w @ map (\<lambda>s. Print [Lit s]) ls\<rparr>)"
  by (induction ls arbitrary: w) (simp_all add: ret_def seq_def bind_def say_def emit_def)

lemma print_menu_run:
  "print_menu w = (Return (), w\<lparr>trace := trace w @ map (\<lambda>s. Print [Lit s]) menu_lines\<rparr>)"
  by (simp add: print_menu_def block_say)

lemma reads_save_results: "inv reads_on (save_results E)"
  unfolding save_results_def Let_def
  by (intro reads_base reads_get_crypto_price reads_get_weather reads_save_to_json)

lemma reads_dashboard_choice: "inv reads_on (dashboard_choice E c)"
  unfolding dashboard_choice_def Let_def
  by (intro reads_base reads_display_weather reads_display_crypto reads_display_top_cryptos
      reads_compare_cryptos reads_create_post reads_save_results reads_display_openweather)

lemma dashboard_turn_reads:
  assumes "dashboard_turn E w = (Return x, w')"
  shows "length (stdin w') < length (stdin w)"
proof -
  obtain w1 where w1: "print_menu w = (Return (), w1)" "stdin w1 = stdin w"
    by (simp add: print_menu_run)
  show ?thesis
  proof (cases "stdin w")
    case Nil
    with w1 have "stdin w1 = []" by simp
    with assms w1(1) show ?thesis
      by (simp add: dashboard_turn_def seq_def bind_def input_line_def)
  next
    case (Cons l ls)
    with w1 have s1: "stdin w1 = l # ls" by simp
    define w2 where "w2 = w1\<lparr>stdin := ls, trace := trace w1 @ [Prompt (nl @ ''Select (1-9): '')]\<rparr>"
    from assms w1(1) s1 have "dashboard_choice E (py_strip l) w2 = (Return x, w')"
      by (simp add: dashboard_turn_def seq_def bind_def input_line_def w2_def)
    with reads_dashboard_choice[of E "py_strip l"] have "length (stdin w') \<le> length (stdin w2)"
      by (auto simp: inv_def reads_on_def dest: spec[of _ w2])
    with Cons show ?thesis by (simp add: w2_def)
  qed
qed

text \<open>The loop \<open>while True\<close> of \<open>dashboard\<close>, and \<open>dashboard\<close> itself.\<close>

function dashboard_loop :: "env \<Rightarrow> unit prog" where
  "dashboard_loop E w =
     (case dashboard_turn E w of
        (Return Continue, w') \<Rightarrow> dashboard_loop E w'
      | (Return Break, w') \<Rightarrow> (Return (), w')
      | (Raise e, w') \<Rightarrow> (Raise e, w'))"
  by pat_completeness auto
termination
  by (relation "measure (\<lambda>(E, w). length (stdin w))") (auto dest: dashboard_turn_reads[OF sym])

declare dashboard_loop.simps [simp del]

definition dashboard :: "env \<Rightarrow> unit prog" where
  "dashboard E =
     block
       [say (nl @ bar 50),
        say ''   Real-World API Dashboard'',
        say (''   '' @ clock E),
        say (bar 50),
        dashboard_loop E]"

text \<open>What runs when the file is executed: the module's own statements, then
  \<open>dashboard()\<close>, from a world in which \<open>last_post_data\<close> is not defined.\<close>

definition run_module :: "(string \<Rightarrow> string option) \<Rightarrow> env \<Rightarrow> unit prog" where
  "run_module environ E = seq (module_init environ) (dashboard E)"

definition fresh :: "string list \<Rightarrow> world" where
  "fresh lines = \<lparr>stdin = lines, trace = [], OPENWEATHER_API_KEY = None, last_post_data = None\<rparr>"
section \<open>What the claims about the dashboard speak of\<close>

fun is_file :: "event \<Rightarrow> bool" where
  "is_file (FileOpen f) = True"
| "is_file (FileWrite f d) = True"
| "is_file ev = False"

definition file_events :: "event list \<Rightarrow> event list" where
  "file_events tr = filter is_file tr"

text \<open>A program is blind to the API key when running it with another key gives the same
  outcome and the same world, but for the key.\<close>

definition key_blind :: "'a prog \<Rightarrow> bool" where
  "key_blind m = (\<forall>w k. m (w\<lparr>OPENWEATHER_API_KEY := k\<rparr>)
                      = (fst (m w), (snd (m w))\<lparr>OPENWEATHER_API_KEY := k\<rparr>))"


text \<open>The document a create request brings back, if it does.\<close>

definition created :: "http_outcome \<Rightarrow> json option" where
  "created out =
     (case out of
        Fails e \<Rightarrow> None
      | Responds r \<Rightarrow>
          if 400 \<le> status_code r \<and> status_code r < 600 then None
          else (case content r of Json v \<Rightarrow> Some v | NotJson m \<Rightarrow> None))"



text \<open>
  The exceptions a program can end with: \<open>raises_only X m\<close> says that whenever \<open>m\<close>
  raises, the exception satisfies \<open>X\<close>. Two instances are used: an exception that is
  not of the \<open>RequestException\<close> family, and the \<open>EOFError\<close> of an \<open>input()\<close> that
  finds standard input closed.
\<close>

definition raises_only :: "(py_exception \<Rightarrow> bool) \<Rightarrow> 'a prog \<Rightarrow> bool" where
  "raises_only X m = (\<forall>w e. fst (m w) = Raise e \<longrightarrow> X e)"







section \<open>Example surroundings\<close>

definition idle_world :: world where
  "idle_world = \<lparr>stdin = [], trace = [], OPENWEATHER_API_KEY = None, last_post_data = None\<rparr>"

definition network_down :: env where
  "network_down = \<lparr>net = (\<lambda>k. Fails (ConnectionError ''Connection refused'')),
                    fs = (\<lambda>t name. FsOk), clock = ''2026-01-01 12:00:00''\<rparr>"

definition not_found :: env where
  "not_found = \<lparr>net = (\<lambda>k. Responds \<lparr>status_code = 404,
                          error_text = ''404 Client Error: Not Found for url'',
                          content = Json (JDict [])\<rparr>),
                  fs = (\<lambda>t name. FsOk), clock = ''2026-01-01 12:00:00''\<rparr>"

definition flaky :: env where
  "flaky = \<lparr>net = (\<lambda>k. if k < 2 then Fails (Timeout ''Read timed out'')
                       else Responds \<lparr>status_code = 200, error_text = [],
                                      content = Json (JDict [(''id'', JInt 1)])\<rparr>),
             fs = (\<lambda>t name. FsOk), clock = ''2026-01-01 12:00:00''\<rparr>"

definition html_page :: env where
  "html_page = \<lparr>net = (\<lambda>k. Responds \<lparr>status_code = 200, error_text = [],
                      content = NotJson ''Expecting value: line 1 column 1 (char 0)''\<rparr>),
                 fs = (\<lambda>t name. FsOk), clock = ''2026-01-01 12:00:00''\<rparr>"






section \<open>Properties of the request with retries\<close>

lemma http_count_simps [simp]:
  "http_count [] = 0"
  "http_count (ev # tr) = (if is_http ev then 1 else 0) + http_count tr"
  "http_count (tr @ tr') = http_count tr + http_count tr'"
  by (simp_all add: http_count_def)

lemma sleep_count_simps [simp]:
  "sleep_count [] = 0"
  "sleep_count (ev # tr) = (if is_sleep ev then 1 else 0) + sleep_count tr"
  "sleep_count (tr @ tr') = sleep_count tr + sleep_count tr'"
  by (simp_all add: sleep_count_def)

lemma effects_simps [simp]:
  "effects [] = []"
  "effects (ev # tr) = (if is_http ev \<or> is_sleep ev then [ev] else []) @ effects tr"
  "effects (tr @ tr') = effects tr @ effects tr'"
  by (simp_all add: effects_def)

lemma attempt_try_fails:
  "net E (http_count (trace w)) = Fails e \<Longrightarrow>
   attempt_try E url timeout attempt w =
     (Raise e, w\<lparr>trace := trace w @ [Log INFO (''Attempt '' @ str_int attempt @ '' for '' @ url),
                                      HttpGet url [] (Some timeout)]\<rparr>)"
  by (simp add: attempt_try_def seq_def bind_def emit_def requests_get_def Let_def)

lemma attempt_try_status:
  "net E (http_count (trace w)) = Responds r \<Longrightarrow> 400 \<le> status_code r \<Longrightarrow> status_code r < 600 \<Longrightarrow>
   attempt_try E url timeout attempt w =
     (Raise (HTTPError (status_code r) (error_text r)),
      w\<lparr>trace := trace w @ [Log INFO (''Attempt '' @ str_int attempt @ '' for '' @ url),
                            HttpGet url [] (Some timeout)]\<rparr>)"
  by (simp add: attempt_try_def seq_def bind_def emit_def requests_get_def Let_def
      raise_for_status_def raise_def)

lemma attempt_try_json:
  "net E (http_count (trace w)) = Responds r \<Longrightarrow> \<not> (400 \<le> status_code r \<and> status_code r < 600) \<Longrightarrow>
   content r = Json v \<Longrightarrow>
   attempt_try E url timeout attempt w =
     (Return (Success v),
      w\<lparr>trace := trace w @ [Log INFO (''Attempt '' @ str_int attempt @ '' for '' @ url),
                            HttpGet url [] (Some timeout),
                            Log INFO (''Request successful ('' @ str_int (int (status_code r))
                                      @ '') for '' @ url)]\<rparr>)"
  by (simp add: attempt_try_def seq_def bind_def emit_def requests_get_def Let_def
      raise_for_status_def raise_def ret_def response_json_def)

lemma attempt_try_not_json:
  "net E (http_count (trace w)) = Responds r \<Longrightarrow> \<not> (400 \<le> status_code r \<and> status_code r < 600) \<Longrightarrow>
   content r = NotJson m \<Longrightarrow>
   attempt_try E url timeout attempt w =
     (Raise (JSONDecodeError m),
      w\<lparr>trace := trace w @ [Log INFO (''Attempt '' @ str_int attempt @ '' for '' @ url),
                            HttpGet url [] (Some timeout),
                            Log INFO (''Request successful ('' @ str_int (int (status_code r))
                                      @ '') for '' @ url)]\<rparr>)"
  by (simp add: attempt_try_def seq_def bind_def emit_def requests_get_def Let_def
      raise_for_status_def raise_def ret_def response_json_def)

lemma attempts_transient_prefix:
  "\<forall>i < length pre. transient (net E (http_count (trace w) + i)) \<Longrightarrow> retries \<notin> set pre \<Longrightarrow>
   \<exists>tr'. attempts E url timeout retries (pre @ rest) w
            = attempts E url timeout retries rest (w\<lparr>trace := tr'\<rparr>)
       \<and> http_count tr' = http_count (trace w) + length pre
       \<and> effects tr' = effects (trace w)
            @ concat (replicate (length pre) [HttpGet url [] (Some timeout), Sleep 2])"
proof (induction pre arbitrary: w)
  case Nil
  show ?case by (rule exI[of _ "trace w"]) simp
next
  case (Cons a pre)
  from Cons.prems(1) have "transient (net E (http_count (trace w) + 0))" by blast
  then obtain e where e: "net E (http_count (trace w)) = Fails e" "is_network_error e"
    by (auto simp: transient_def split: http_outcome.splits)
  define w1 where "w1 = w\<lparr>trace := trace w @ [Log INFO (''Attempt '' @ str_int a @ '' for '' @ url),
                                      HttpGet url [] (Some timeout),
                                      Log WARNING (''Attempt '' @ str_int a
                           @ '' failed due to network issue: '' @ exc_str e), Sleep 2]\<rparr>"
  from Cons.prems(2) have ne: "a \<noteq> retries" "retries \<notin> set pre" by auto
  have step: "attempts E url timeout retries ((a # pre) @ rest) w
        = attempts E url timeout retries (pre @ rest) w1"
    using e ne by (simp add: attempts.simps attempt_try_fails w1_def Let_def)
  have cnt: "http_count (trace w1) = http_count (trace w) + 1"
    by (simp add: w1_def)
  have eff: "effects (trace w1) = effects (trace w) @ [HttpGet url [] (Some timeout), Sleep 2]"
    by (simp add: w1_def)
  have "\<forall>i < length pre. transient (net E (http_count (trace w1) + i))"
    using Cons.prems(1) cnt by auto
  from Cons.IH[OF this ne(2)] obtain tr' where tr':
    "attempts E url timeout retries (pre @ rest) w1
       = attempts E url timeout retries rest (w1\<lparr>trace := tr'\<rparr>)"
    "http_count tr' = http_count (trace w1) + length pre"
    "effects tr' = effects (trace w1)
            @ concat (replicate (length pre) [HttpGet url [] (Some timeout), Sleep 2])"
    by blast
  have "w1\<lparr>trace := tr'\<rparr> = w\<lparr>trace := tr'\<rparr>" by (simp add: w1_def)
  with step tr' cnt eff show ?case
    by (intro exI[of _ tr']) simp
qed


lemma http_count_effects: "http_count (effects tr) = http_count tr"
  by (induction tr) auto

lemma sleep_count_effects: "sleep_count (effects tr) = sleep_count tr"
  by (induction tr) auto

lemma sleep_count_rounds:
  "sleep_count (concat (replicate n [HttpGet url ps t, Sleep d])) = n"
  by (induction n) simp_all

lemma attempts_network_last:
  "net E (http_count (trace w)) = Fails e \<Longrightarrow> is_network_error e \<Longrightarrow>
   attempts E url timeout retries (retries # rest) w =
     (Return (Some (Failure (''Failed after '' @ str_int retries @ '' attempts''))),
      w\<lparr>trace := trace w @
         [Log INFO (''Attempt '' @ str_int retries @ '' for '' @ url),
          HttpGet url [] (Some timeout),
          Log WARNING (''Attempt '' @ str_int retries @ '' failed due to network issue: ''
                       @ exc_str e),
          Log ERROR (''Request failed after '' @ str_int retries @ '' attempts: '' @ url)]\<rparr>)"
  by (simp add: attempts.simps attempt_try_fails Let_def)

lemma attempts_http_error:
  "net E (http_count (trace w)) = Responds r \<Longrightarrow> 400 \<le> status_code r \<Longrightarrow> status_code r < 600 \<Longrightarrow>
   attempts E url timeout retries (a # rest) w =
     (Return (Some (Failure (''HTTP Error: '' @ str_int (int (status_code r))))),
      w\<lparr>trace := trace w @
         [Log INFO (''Attempt '' @ str_int a @ '' for '' @ url),
          HttpGet url [] (Some timeout),
          Log ERROR (''HTTP error '' @ str_int (int (status_code r)) @ '' for '' @ url)]\<rparr>)"
  by (simp add: attempts.simps attempt_try_status)

lemma attempts_json:
  "net E (http_count (trace w)) = Responds r \<Longrightarrow>
   \<not> (400 \<le> status_code r \<and> status_code r < 600) \<Longrightarrow> content r = Json v \<Longrightarrow>
   attempts E url timeout retries (a # rest) w =
     (Return (Some (Success v)),
      w\<lparr>trace := trace w @
         [Log INFO (''Attempt '' @ str_int a @ '' for '' @ url),
          HttpGet url [] (Some timeout),
          Log INFO (''Request successful ('' @ str_int (int (status_code r))
                    @ '') for '' @ url)]\<rparr>)"
  by (simp add: attempts.simps attempt_try_json)

lemma attempts_not_json:
  "net E (http_count (trace w)) = Responds r \<Longrightarrow>
   \<not> (400 \<le> status_code r \<and> status_code r < 600) \<Longrightarrow> content r = NotJson m \<Longrightarrow>
   attempts E url timeout retries (a # rest) w =
     (Return (Some (Failure (''Request failed: '' @ m))),
      w\<lparr>trace := trace w @
         [Log INFO (''Attempt '' @ str_int a @ '' for '' @ url),
          HttpGet url [] (Some timeout),
          Log INFO (''Request successful ('' @ str_int (int (status_code r))
                    @ '') for '' @ url),
          Log ERROR (''Request exception for '' @ url @ '': '' @ m)]\<rparr>)"
  by (simp add: attempts.simps attempt_try_not_json)

lemma safe_api_request_unfold:
  "safe_api_request E url timeout retries w =
     attempts E url timeout retries [1..retries]
       (w\<lparr>trace := trace w @ [Log INFO (''Request started: '' @ url)]\<rparr>)"
  by (simp add: safe_api_request_def seq_def bind_def emit_def)

lemma upto_from_1: "1 \<le> (N::int) \<Longrightarrow> [1..N] = 1 # [2..N]"
  by (simp add: upto_rec1)

text \<open>
  Claim C2. For every number of attempts \<open>N \<ge> 1\<close>, when each of the \<open>N\<close> attempts fails
  with a connection error or a timeout, \<open>safe_api_request\<close> makes exactly \<open>N\<close> HTTP
  calls, sleeps the fixed two seconds between one attempt and the next and not after the
  last (\<open>N - 1\<close> sleeps, the calls and sleeps alternating and ending in a call), and
  returns the failure dictionary whose message is \<open>Failed after N attempts\<close>. The
  dictionary has no field for the kind of failure: the message is what marks it as the
  transient one.
\<close>
theorem all_transient_fails_after_N:
  assumes "1 \<le> N"
    and "\<forall>k < nat N. transient (net E (http_count (trace w) + k))"
  shows "case safe_api_request E url timeout N w of (res, w') \<Rightarrow>
           res = Return (Some (Failure (''Failed after '' @ str_int N @ '' attempts'')))
         \<and> http_count (trace w') = http_count (trace w) + nat N
         \<and> sleep_count (trace w') = sleep_count (trace w) + (nat N - 1)
         \<and> effects (trace w') = effects (trace w)
              @ concat (replicate (nat N - 1) [HttpGet url [] (Some timeout), Sleep 2])
              @ [HttpGet url [] (Some timeout)]"
proof -
  define w1 where "w1 = w\<lparr>trace := trace w @ [Log INFO (''Request started: '' @ url)]\<rparr>"
  have c1: "http_count (trace w1) = http_count (trace w)"
    and e1: "effects (trace w1) = effects (trace w)"
    by (simp_all add: w1_def)
  have split: "[1..N] = [1..N - 1] @ [N]"
    using assms(1) by (simp add: upto_rec2)
  have len: "length [1..N - 1] = nat N - 1"
    using assms(1) by simp
  have "\<forall>i < length [1..N - 1]. transient (net E (http_count (trace w1) + i))"
    using assms(2) c1 len by auto
  moreover have "N \<notin> set [1..N - 1]" by simp
  ultimately obtain tr' where tr':
    "attempts E url timeout N ([1..N - 1] @ [N]) w1 = attempts E url timeout N [N] (w1\<lparr>trace := tr'\<rparr>)"
    "http_count tr' = http_count (trace w1) + length [1..N - 1]"
    "effects tr' = effects (trace w1)
       @ concat (replicate (length [1..N - 1]) [HttpGet url [] (Some timeout), Sleep 2])"
    using attempts_transient_prefix[of "[1..N - 1]" E w1 N url timeout "[N]"] by blast
  have cnt: "http_count tr' = http_count (trace w) + (nat N - 1)"
    using tr'(2) c1 len by simp
  have "nat N - 1 < nat N" using assms(1) by simp
  with assms(2) have "transient (net E (http_count (trace w) + (nat N - 1)))" by blast
  then obtain e where e: "net E (http_count tr') = Fails e" "is_network_error e"
    using cnt by (auto simp: transient_def split: http_outcome.splits)
  define w2 where "w2 = w1\<lparr>trace := tr'\<rparr>"
  have e2: "net E (http_count (trace w2)) = Fails e" using e(1) by (simp add: w2_def)
  have "safe_api_request E url timeout N w = attempts E url timeout N [N] w2"
    using tr'(1) split by (simp add: safe_api_request_unfold w1_def w2_def)
  also note attempts_network_last[OF e2 e(2), where url = url and timeout = timeout
      and retries = N and rest = "[]"]
  finally have run: "safe_api_request E url timeout N w =
     (Return (Some (Failure (''Failed after '' @ str_int N @ '' attempts''))),
      w2\<lparr>trace := trace w2 @
         [Log INFO (''Attempt '' @ str_int N @ '' for '' @ url),
          HttpGet url [] (Some timeout),
          Log WARNING (''Attempt '' @ str_int N @ '' failed due to network issue: ''
                       @ exc_str e),
          Log ERROR (''Request failed after '' @ str_int N @ '' attempts: '' @ url)]\<rparr>)" .
  have eff: "effects tr' = effects (trace w)
       @ concat (replicate (nat N - 1) [HttpGet url [] (Some timeout), Sleep 2])"
    using tr'(3) e1 len by simp
  have sl: "sleep_count tr' = sleep_count (trace w) + (nat N - 1)"
    using arg_cong[OF eff, of sleep_count]
    by (simp add: sleep_count_effects sleep_count_rounds)
  show ?thesis
    unfolding run using assms(1) cnt eff sl
    by (simp add: w2_def)
qed

theorem all_transient_fails_after_N_witness:
  "(1::int) \<le> 3 \<and> transient (net network_down 2) \<and>
   fst (safe_api_request network_down ''https://example.org/api'' 5 3 idle_world) =
     Return (Some (Failure ''Failed after 3 attempts''))
   \<and> effects (trace (snd (safe_api_request network_down ''https://example.org/api'' 5 3 idle_world)))
       = [HttpGet ''https://example.org/api'' [] (Some 5), Sleep 2,
          HttpGet ''https://example.org/api'' [] (Some 5), Sleep 2,
          HttpGet ''https://example.org/api'' [] (Some 5)]"
  using all_transient_fails_after_N[of 3 network_down idle_world "''https://example.org/api''" 5]
  by (simp add: transient_def network_down_def idle_world_def str_int_def
      str_nat.simps eval_nat_numeral split: prod.splits)


text \<open>
  Claim C3. For every number of attempts \<open>N \<ge> 1\<close>, when the first attempt receives a
  response whose status code is an error code (400 to 599, the codes
  \<open>raise_for_status\<close> raises for), \<open>safe_api_request\<close> returns the failure dictionary
  that carries this code (\<open>HTTP Error: code\<close>) after exactly one HTTP call and without
  sleeping: there is no retry.
\<close>
theorem http_error_status_not_retried:
  assumes "1 \<le> N"
    and "net E (http_count (trace w)) = Responds r"
    and "400 \<le> status_code r" and "status_code r < 600"
  shows "case safe_api_request E url timeout N w of (res, w') \<Rightarrow>
           res = Return (Some (Failure (''HTTP Error: '' @ str_int (int (status_code r)))))
         \<and> http_count (trace w') = http_count (trace w) + 1
         \<and> sleep_count (trace w') = sleep_count (trace w)
         \<and> effects (trace w') = effects (trace w) @ [HttpGet url [] (Some timeout)]"
proof -
  define w1 where "w1 = w\<lparr>trace := trace w @ [Log INFO (''Request started: '' @ url)]\<rparr>"
  have n1: "net E (http_count (trace w1)) = Responds r"
    using assms(2) by (simp add: w1_def)
  have "safe_api_request E url timeout N w = attempts E url timeout N (1 # [2..N]) w1"
    using assms(1) by (simp add: safe_api_request_unfold w1_def upto_from_1)
  also note attempts_http_error[OF n1 assms(3,4)]
  finally show ?thesis by (simp add: w1_def)
qed

theorem http_error_status_not_retried_witness:
  "(1::int) \<le> 3 \<and> net not_found 0 = Responds \<lparr>status_code = 404,
                          error_text = ''404 Client Error: Not Found for url'',
                          content = Json (JDict [])\<rparr>
   \<and> fst (safe_api_request not_found ''https://example.org/posts/99999'' 5 3 idle_world)
       = Return (Some (Failure ''HTTP Error: 404''))
   \<and> effects (trace (snd (safe_api_request not_found ''https://example.org/posts/99999'' 5 3
        idle_world))) = [HttpGet ''https://example.org/posts/99999'' [] (Some 5)]"
  using http_error_status_not_retried[of 3 not_found idle_world
      "\<lparr>status_code = 404, error_text = ''404 Client Error: Not Found for url'',
        content = Json (JDict [])\<rparr>" "''https://example.org/posts/99999''" 5]
  by (simp add: not_found_def idle_world_def str_int_def str_nat.simps split: prod.splits)

text \<open>
  Claim C4. For every \<open>K\<close> with \<open>1 \<le> K \<le> N\<close>, when the first \<open>K - 1\<close> attempts fail
  with a connection error or a timeout and attempt \<open>K\<close> receives a response with a
  non-error status and a JSON body, \<open>safe_api_request\<close> returns the success dictionary
  with the parsed document, after exactly \<open>K\<close> HTTP calls (and \<open>K - 1\<close> sleeps between
  them).
\<close>
theorem success_on_attempt_K:
  assumes "1 \<le> K" and "K \<le> N"
    and "\<forall>k < nat K - 1. transient (net E (http_count (trace w) + k))"
    and "net E (http_count (trace w) + (nat K - 1)) = Responds r"
    and "\<not> (400 \<le> status_code r \<and> status_code r < 600)"
    and "content r = Json v"
  shows "case safe_api_request E url timeout N w of (res, w') \<Rightarrow>
           res = Return (Some (Success v))
         \<and> http_count (trace w') = http_count (trace w) + nat K
         \<and> sleep_count (trace w') = sleep_count (trace w) + (nat K - 1)
         \<and> effects (trace w') = effects (trace w)
              @ concat (replicate (nat K - 1) [HttpGet url [] (Some timeout), Sleep 2])
              @ [HttpGet url [] (Some timeout)]"
proof -
  define w1 where "w1 = w\<lparr>trace := trace w @ [Log INFO (''Request started: '' @ url)]\<rparr>"
  have c1: "http_count (trace w1) = http_count (trace w)"
    and e1: "effects (trace w1) = effects (trace w)"
    by (simp_all add: w1_def)
  have split: "[1..N] = [1..K - 1] @ K # [K + 1..N]"
    using assms(1,2) by (rule upto_split3)
  have len: "length [1..K - 1] = nat K - 1"
    using assms(1) by simp
  have "\<forall>i < length [1..K - 1]. transient (net E (http_count (trace w1) + i))"
    using assms(3) c1 len by auto
  moreover have "N \<notin> set [1..K - 1]" using assms(2) by simp
  ultimately obtain tr' where tr':
    "attempts E url timeout N ([1..K - 1] @ K # [K + 1..N]) w1
       = attempts E url timeout N (K # [K + 1..N]) (w1\<lparr>trace := tr'\<rparr>)"
    "http_count tr' = http_count (trace w1) + length [1..K - 1]"
    "effects tr' = effects (trace w1)
       @ concat (replicate (length [1..K - 1]) [HttpGet url [] (Some timeout), Sleep 2])"
    using attempts_transient_prefix[of "[1..K - 1]" E w1 N url timeout "K # [K + 1..N]"] by blast
  have cnt: "http_count tr' = http_count (trace w) + (nat K - 1)"
    using tr'(2) c1 len by simp
  define w2 where "w2 = w1\<lparr>trace := tr'\<rparr>"
  have n2: "net E (http_count (trace w2)) = Responds r"
    using assms(4) cnt by (simp add: w2_def)
  have "safe_api_request E url timeout N w = attempts E url timeout N (K # [K + 1..N]) w2"
    using tr'(1) split by (simp add: safe_api_request_unfold w1_def w2_def)
  also note attempts_json[OF n2 assms(5,6)]
  finally have run: "safe_api_request E url timeout N w =
     (Return (Some (Success v)),
      w2\<lparr>trace := trace w2 @
         [Log INFO (''Attempt '' @ str_int K @ '' for '' @ url),
          HttpGet url [] (Some timeout),
          Log INFO (''Request successful ('' @ str_int (int (status_code r))
                    @ '') for '' @ url)]\<rparr>)" .
  have eff: "effects tr' = effects (trace w)
       @ concat (replicate (nat K - 1) [HttpGet url [] (Some timeout), Sleep 2])"
    using tr'(3) e1 len by simp
  have sl: "sleep_count tr' = sleep_count (trace w) + (nat K - 1)"
    using arg_cong[OF eff, of sleep_count]
    by (simp add: sleep_count_effects sleep_count_rounds)
  show ?thesis
    unfolding run using assms(1) cnt eff sl
    by (simp add: w2_def)
qed

theorem success_on_attempt_K_witness:
  "(1::int) \<le> 3 \<and> (3::int) \<le> 3 \<and> transient (net flaky 1)
   \<and> fst (safe_api_request flaky ''https://example.org/posts/1'' 5 3 idle_world)
       = Return (Some (Success (JDict [(''id'', JInt 1)])))
   \<and> http_count (trace (snd (safe_api_request flaky ''https://example.org/posts/1'' 5 3
        idle_world))) = 3
   \<and> effects (trace (snd (safe_api_request flaky ''https://example.org/posts/1'' 5 3
        idle_world))) =
       [HttpGet ''https://example.org/posts/1'' [] (Some 5), Sleep 2,
        HttpGet ''https://example.org/posts/1'' [] (Some 5), Sleep 2,
        HttpGet ''https://example.org/posts/1'' [] (Some 5)]"
  using success_on_attempt_K[of 3 3 flaky idle_world
      "\<lparr>status_code = 200, error_text = [], content = Json (JDict [(''id'', JInt 1)])\<rparr>"
      "JDict [(''id'', JInt 1)]" "''https://example.org/posts/1''" 5]
  by (simp add: flaky_def idle_world_def transient_def eval_nat_numeral split: prod.splits)

text \<open>
  Claim C5 says that a response with a non-error status and a body that is not JSON
  gives a failure with the message \<open>invalid response body\<close>. The code has no such
  message: the \<open>JSONDecodeError\<close> of \<open>response.json()\<close> is a \<open>RequestException\<close>,
  and the last \<open>except\<close> clause reports it as \<open>Request failed:\<close> followed by the
  decoder's own text. For a server that answers 200 with an HTML page:
\<close>
theorem invalid_body_counterexample:
  "fst (safe_api_request html_page ''https://example.org/'' 5 3 idle_world)
     = Return (Some (Failure ''Request failed: Expecting value: line 1 column 1 (char 0)''))
   \<and> fst (safe_api_request html_page ''https://example.org/'' 5 3 idle_world)
     \<noteq> Return (Some (Failure ''invalid response body''))"
  by (simp add: safe_api_request_unfold upto_from_1 attempts_not_json html_page_def idle_world_def)

text \<open>
  Claim C5, amended. When the first attempt receives a response with a non-error status
  whose body is not valid JSON, \<open>safe_api_request\<close> returns the failure dictionary
  whose message is \<open>Request failed:\<close> followed by the text of the decoding error,
  after exactly one HTTP call and without sleeping: there is no retry.
\<close>
theorem invalid_body_not_retried:
  assumes "1 \<le> N"
    and "net E (http_count (trace w)) = Responds r"
    and "\<not> (400 \<le> status_code r \<and> status_code r < 600)"
    and "content r = NotJson m"
  shows "case safe_api_request E url timeout N w of (res, w') \<Rightarrow>
           res = Return (Some (Failure (''Request failed: '' @ m)))
         \<and> http_count (trace w') = http_count (trace w) + 1
         \<and> sleep_count (trace w') = sleep_count (trace w)
         \<and> effects (trace w') = effects (trace w) @ [HttpGet url [] (Some timeout)]"
proof -
  define w1 where "w1 = w\<lparr>trace := trace w @ [Log INFO (''Request started: '' @ url)]\<rparr>"
  have n1: "net E (http_count (trace w1)) = Responds r"
    using assms(2) by (simp add: w1_def)
  have "safe_api_request E url timeout N w = attempts E url timeout N (1 # [2..N]) w1"
    using assms(1) by (simp add: safe_api_request_unfold w1_def upto_from_1)
  also note attempts_not_json[OF n1 assms(3,4)]
  finally show ?thesis by (simp add: w1_def)
qed

theorem invalid_body_not_retried_witness:
  "(1::int) \<le> 3 \<and> content \<lparr>status_code = 200, error_text = [],
                      content = NotJson ''Expecting value: line 1 column 1 (char 0)''\<rparr>
       = NotJson ''Expecting value: line 1 column 1 (char 0)''
   \<and> fst (safe_api_request html_page ''https://example.org/'' 5 3 idle_world)
       = Return (Some (Failure ''Request failed: Expecting value: line 1 column 1 (char 0)''))
   \<and> effects (trace (snd (safe_api_request html_page ''https://example.org/'' 5 3 idle_world)))
       = [HttpGet ''https://example.org/'' [] (Some 5)]"
  using invalid_body_not_retried[of 3 html_page idle_world
      "\<lparr>status_code = 200, error_text = [],
        content = NotJson ''Expecting value: line 1 column 1 (char 0)''\<rparr>"
      "''Expecting value: line 1 column 1 (char 0)''" "''https://example.org/''" 5]
  by (simp add: html_page_def idle_world_def split: prod.splits)







section \<open>Properties of the queries from user input\<close>

text \<open>
  Claim C9 says that for every input that is not entirely digits, or whose number is
  outside 1..10, the user lookup and the post search print a validation error and return
  without an HTTP request, and that the check itself never raises, because \<open>isdigit\<close>
  guards \<open>int\<close>. The guard is \<open>str.isdigit()\<close>, which also accepts digits that \<open>int\<close>
  does not read: for the one-character input U+00B2 (superscript two) \<open>isdigit\<close> holds,
  \<open>int\<close> raises \<open>ValueError\<close>, nothing catches it, and both actions end with that
  exception instead of the validation message.
\<close>

theorem superscript_two_is_not_rejected:
  "get_user_info E (fresh [[CHR 0xB2]]) =
     (Raise (ValueError (''invalid literal for int() with base 10: '' @ apos @ [CHR 0xB2] @ apos)),
      (fresh [[CHR 0xB2]])\<lparr>stdin := [],
         trace := [Print [Lit (''=== User Information Lookup ==='' @ nl)],
                   Prompt ''Enter user ID (1-10): '']\<rparr>)
   \<and> search_posts E (fresh [[CHR 0xB2]]) =
     (Raise (ValueError (''invalid literal for int() with base 10: '' @ apos @ [CHR 0xB2] @ apos)),
      (fresh [[CHR 0xB2]])\<lparr>stdin := [],
         trace := [Print [Lit (nl @ ''=== Post Search ==='' @ nl)],
                   Prompt ''Enter user ID to see their posts (1-10): '']\<rparr>)"
  by (simp add: get_user_info_def search_posts_def fresh_def seq_def bind_def say_def emit_def
      input_line_def invalid_user_id_def py_isdigit_def is_digit_def is_decimal_def lift_def
      py_int_def py_strip_def py_isspace_def whitespace_def raise_def Let_def)

text \<open>Where the check does not raise, it does what the claim says: an input that
  \<open>isdigit\<close> refuses, or whose number is outside 1..10, is answered with the validation
  message and no HTTP request.\<close>

lemma invalid_user_id_rejects:
  assumes "\<not> py_isdigit s \<or> (\<exists>n. py_int s = Inr n \<and> \<not> (1 \<le> n \<and> n \<le> 10))"
  shows "invalid_user_id s w = (Return True, w)"
  using assms by (auto simp: invalid_user_id_def ret_def bind_def lift_def)

lemma get_user_info_rejects:
  assumes "\<not> py_isdigit s \<or> (\<exists>n. py_int s = Inr n \<and> \<not> (1 \<le> n \<and> n \<le> 10))"
    and "stdin w = s # rest"
  shows "get_user_info E w =
     (Return (), w\<lparr>stdin := rest,
        trace := trace w @ [Print [Lit (''=== User Information Lookup ==='' @ nl)],
                            Prompt ''Enter user ID (1-10): '',
                            Print [Lit ''User ID must be a number!'']]\<rparr>)"
  using assms(2)
  by (simp add: get_user_info_def seq_def bind_def say_def emit_def input_line_def
      invalid_user_id_rejects[OF assms(1)])

lemma search_posts_rejects:
  assumes "\<not> py_isdigit (py_strip s)
           \<or> (\<exists>n. py_int (py_strip s) = Inr n \<and> \<not> (1 \<le> n \<and> n \<le> 10))"
    and "stdin w = s # rest"
  shows "search_posts E w =
     (Return (), w\<lparr>stdin := rest,
        trace := trace w @ [Print [Lit (nl @ ''=== Post Search ==='' @ nl)],
                            Prompt ''Enter user ID to see their posts (1-10): '',
                            Print [Lit ''User ID must be numeric!'']]\<rparr>)"
  using assms(2)
  by (simp add: search_posts_def seq_def bind_def say_def emit_def input_line_def Let_def
      invalid_user_id_rejects[OF assms(1)])

section \<open>Properties of the dashboard\<close>

lemma file_events_simps [simp]:
  "file_events [] = []"
  "file_events (ev # tr) = (if is_file ev then [ev] else []) @ file_events tr"
  "file_events (tr @ tr') = file_events tr @ file_events tr'"
  by (simp_all add: file_events_def)

subsection \<open>Running the pieces\<close>



lemma seq_print_run: "seq (print_line ps) n w = n (w\<lparr>trace := trace w @ [Print ps]\<rparr>)"
  by (simp add: seq_def bind_def print_line_def emit_def)




lemma seq_run: "m w = (Return x, w') \<Longrightarrow> seq m n w = n w'"
  by (simp add: seq_def bind_def)


subsection \<open>Saving\<close>

text \<open>
  Claim C10. For every falsy value of \<open>data\<close> (\<open>None\<close>, an empty dictionary, an empty
  list, and also \<open>False\<close>, zero and the empty string) \<open>save_to_json\<close> prints
  \<open>No data to save.\<close> and returns, and that is all it does: no file is opened or
  written. A file is opened or written only when \<open>data\<close> is truthy.
\<close>

theorem save_to_json_nothing_to_save:
  "(\<not> truthy data \<longrightarrow>
      save_to_json E data filename w =
        (Return (), w\<lparr>trace := trace w @ [Print [Lit ''No data to save.'']]\<rparr>))
   \<and> (file_events (trace (snd (save_to_json E data filename w))) \<noteq> file_events (trace w)
        \<longrightarrow> truthy data)"
  by (auto simp: save_to_json_def say_def emit_def)

theorem save_to_json_nothing_to_save_witness:
  "\<not> truthy JNull \<and> \<not> truthy (JDict []) \<and> \<not> truthy (JList [])
   \<and> save_to_json network_down JNull ''results.json'' idle_world =
       (Return (), idle_world\<lparr>trace := [Print [Lit ''No data to save.'']]\<rparr>)
   \<and> save_to_json network_down (JDict []) ''results.json'' idle_world =
       (Return (), idle_world\<lparr>trace := [Print [Lit ''No data to save.'']]\<rparr>)
   \<and> save_to_json network_down (JList []) ''results.json'' idle_world =
       (Return (), idle_world\<lparr>trace := [Print [Lit ''No data to save.'']]\<rparr>)"
  using save_to_json_nothing_to_save[of JNull network_down "''results.json''" idle_world]
    save_to_json_nothing_to_save[of "JDict []" network_down "''results.json''" idle_world]
    save_to_json_nothing_to_save[of "JList []" network_down "''results.json''" idle_world]
  by (simp add: idle_world_def)

lemma save_to_json_writes:
  assumes "truthy data" and "fs E (length (trace w)) filename = FsOk"
  shows "save_to_json E data filename w =
     (Return (), w\<lparr>trace := trace w @
        [FileOpen filename, FileWrite filename data,
         Print [Lit (nl @ ''Data successfully saved to '' @ apos @ filename @ apos)]]\<rparr>)"
  using assms
  by (simp add: save_to_json_def try_except_def seq_def bind_def write_json_def say_def emit_def)

subsection \<open>The API key\<close>

lemma key_blind_stateless: "stateless m \<Longrightarrow> key_blind m"
  by (auto simp: stateless_def key_blind_def)

lemma key_blind_bind:
  assumes "key_blind m" and "\<And>x. key_blind (f x)"
  shows "key_blind (bind m f)"
  unfolding key_blind_def
proof (intro allI)
  fix w k
  obtain r w' where mw: "m w = (r, w')" by (cases "m w")
  with assms(1) have mk: "m (w\<lparr>OPENWEATHER_API_KEY := k\<rparr>) = (r, w'\<lparr>OPENWEATHER_API_KEY := k\<rparr>)"
    by (simp add: key_blind_def)
  show "bind m f (w\<lparr>OPENWEATHER_API_KEY := k\<rparr>)
        = (fst (bind m f w), (snd (bind m f w))\<lparr>OPENWEATHER_API_KEY := k\<rparr>)"
  proof (cases r)
    case (Return x)
    from assms(2)[of x] have "f x (w'\<lparr>OPENWEATHER_API_KEY := k\<rparr>)
        = (fst (f x w'), (snd (f x w'))\<lparr>OPENWEATHER_API_KEY := k\<rparr>)"
      by (simp add: key_blind_def)
    with mw mk Return show ?thesis by (simp add: bind_def)
  next
    case (Raise e)
    with mw mk show ?thesis by (simp add: bind_def)
  qed
qed

lemma key_blind_seq: "key_blind m \<Longrightarrow> key_blind n \<Longrightarrow> key_blind (seq m n)"
  by (simp add: seq_def key_blind_bind)

lemma key_blind_try_except:
  assumes "key_blind m" and "\<And>e k. h e = Some k \<Longrightarrow> key_blind k"
  shows "key_blind (try_except m h)"
  unfolding key_blind_def
proof (intro allI)
  fix w k
  obtain r w' where mw: "m w = (r, w')" by (cases "m w")
  with assms(1) have mk: "m (w\<lparr>OPENWEATHER_API_KEY := k\<rparr>) = (r, w'\<lparr>OPENWEATHER_API_KEY := k\<rparr>)"
    by (simp add: key_blind_def)
  show "try_except m h (w\<lparr>OPENWEATHER_API_KEY := k\<rparr>)
        = (fst (try_except m h w), (snd (try_except m h w))\<lparr>OPENWEATHER_API_KEY := k\<rparr>)"
  proof (cases r)
    case (Return x)
    with mw mk show ?thesis by (simp add: try_except_def)
  next
    case (Raise e)
    show ?thesis
    proof (cases "h e")
      case None
      with mw mk Raise show ?thesis by (simp add: try_except_def)
    next
      case (Some g)
      from assms(2)[OF Some] have "g (w'\<lparr>OPENWEATHER_API_KEY := k\<rparr>)
          = (fst (g w'), (snd (g w'))\<lparr>OPENWEATHER_API_KEY := k\<rparr>)"
        by (simp add: key_blind_def)
      with mw mk Raise Some show ?thesis by (simp add: try_except_def)
    qed
  qed
qed

lemma key_blind_try_request:
  "key_blind m \<Longrightarrow> (\<And>e. key_blind (g e)) \<Longrightarrow> key_blind (try_except m (on_request_exception g))"
  by (rule key_blind_try_except) (auto simp: on_request_exception_def split: if_splits)

lemma key_blind_try_all:
  "key_blind m \<Longrightarrow> (\<And>e. key_blind (g e)) \<Longrightarrow> key_blind (try_except m (\<lambda>e. Some (g e)))"
  by (rule key_blind_try_except) auto

lemma key_blind_block_Nil: "key_blind (block [])"
  by (simp add: key_blind_stateless stateless_ret)

lemma key_blind_block_Cons: "key_blind m \<Longrightarrow> key_blind (block ms) \<Longrightarrow> key_blind (block (m # ms))"
  by (simp add: key_blind_seq)

lemma key_blind_block_map: "(\<And>x. key_blind (f x)) \<Longrightarrow> key_blind (block (map f xs))"
  by (induction xs) (simp_all add: key_blind_seq key_blind_stateless stateless_ret)

lemma key_blind_if: "(c \<Longrightarrow> key_blind a) \<Longrightarrow> (\<not> c \<Longrightarrow> key_blind b) \<Longrightarrow> key_blind (if c then a else b)"
  by simp

lemma key_blind_case_option:
  "key_blind a \<Longrightarrow> (\<And>x. key_blind (f x)) \<Longrightarrow> key_blind (case opt of None \<Rightarrow> a | Some x \<Rightarrow> f x)"
  by (simp split: option.splits)

lemma key_blind_case_prod:
  "(\<And>a b. key_blind (f a b)) \<Longrightarrow> key_blind (case p of (a, b) \<Rightarrow> f a b)"
  by (simp split: prod.splits)

lemma key_blind_prims:
  "key_blind (emit ev)" "key_blind (say s)" "key_blind (print_line ps)"
  "key_blind (input_line p)" "key_blind (requests_get E u qs t)"
  "key_blind (requests_post E u d t)" "key_blind (write_json E f d)"
  "key_blind get_last_post_data" "key_blind (set_last_post_data d)"
  by (auto simp: key_blind_def emit_def say_def print_line_def input_line_def
      requests_get_def requests_post_def write_json_def
      get_last_post_data_def set_last_post_data_def Let_def
      split: list.splits http_outcome.splits fs_outcome.splits)

lemmas key_blind_base = key_blind_bind key_blind_seq key_blind_try_request key_blind_try_all
  key_blind_block_Nil key_blind_block_Cons key_blind_block_map key_blind_if
  key_blind_case_option key_blind_case_prod key_blind_prims
  stateless_intros[THEN key_blind_stateless]

lemma key_blind_fetch: "key_blind (fetch E u ps t)"
  unfolding fetch_def by (intro key_blind_base)

lemma key_blind_get_weather: "key_blind (get_weather E c)"
  unfolding get_weather_def Let_def by (intro key_blind_base key_blind_fetch)

lemma key_blind_save_to_json: "key_blind (save_to_json E d f)"
  unfolding save_to_json_def by (intro key_blind_base)

lemma key_blind_display_weather: "key_blind (display_weather E c)"
  unfolding display_weather_def by (intro key_blind_base key_blind_get_weather)

lemma key_blind_get_crypto_price: "key_blind (get_crypto_price E c)"
  unfolding get_crypto_price_def Let_def by (intro key_blind_base key_blind_fetch)

lemma key_blind_compare_row: "key_blind (compare_row E c)"
  unfolding compare_row_def
  by (intro key_blind_base key_blind_get_crypto_price key_blind_try_except)
     (auto split: py_exception.splits intro: key_blind_base)

lemma key_blind_compare_cryptos: "key_blind (compare_cryptos E cs)"
  unfolding compare_cryptos_def by (intro key_blind_base key_blind_compare_row)

lemma key_blind_display_crypto: "key_blind (display_crypto E c)"
  unfolding display_crypto_def by (intro key_blind_base key_blind_get_crypto_price)

lemma key_blind_get_top_cryptos: "key_blind (get_top_cryptos E n)"
  unfolding get_top_cryptos_def by (intro key_blind_base key_blind_fetch)

lemma key_blind_create_post: "key_blind (create_post E)"
  unfolding create_post_def Let_def by (intro key_blind_base)

lemma key_blind_top_row: "key_blind (top_row c)"
  unfolding top_row_def by (intro key_blind_base)

lemma key_blind_display_top_cryptos: "key_blind (display_top_cryptos E)"
  unfolding display_top_cryptos_def
  by (intro key_blind_base key_blind_get_top_cryptos key_blind_top_row)

lemma key_blind_save_results: "key_blind (save_results E)"
  unfolding save_results_def Let_def
  by (intro key_blind_base key_blind_get_crypto_price key_blind_get_weather
      key_blind_save_to_json)

lemma key_blind_other_choices: "choice \<noteq> ''8'' \<Longrightarrow> key_blind (dashboard_choice E choice)"
  unfolding dashboard_choice_def Let_def
  by (simp del: One_nat_def)
     (intro conjI impI key_blind_base key_blind_display_weather key_blind_display_crypto
      key_blind_display_top_cryptos key_blind_compare_cryptos key_blind_create_post
      key_blind_save_results)

lemma module_init_without_key:
  "environ ''OPENWEATHER_API_KEY'' = None \<Longrightarrow>
   module_init environ w =
     (Return (), w\<lparr>trace := trace w @
        [Print [Lit ''Warning: OPENWEATHER_API_KEY not set! OpenWeatherMap requests may fail.'']],
        OPENWEATHER_API_KEY := None\<rparr>)"
  by (simp add: module_init_def seq_def bind_def set_api_key_def get_api_key_def
      key_missing_def say_def emit_def)

lemma get_openweather_without_key:
  "OPENWEATHER_API_KEY w = None \<Longrightarrow>
   get_openweather E city w =
     (Return JNull, w\<lparr>trace := trace w @
        [Print [Lit ''No API key provided. Set OPENWEATHER_API_KEY environment variable.'']]\<rparr>)"
  by (simp add: get_openweather_def Let_def seq_def bind_def get_api_key_def
      key_missing_def say_def emit_def ret_def)

lemma choice_8_without_key:
  "OPENWEATHER_API_KEY w = None \<Longrightarrow> stdin w = city # rest \<Longrightarrow>
   dashboard_choice E ''8'' w =
     (Return Continue, w\<lparr>stdin := rest, trace := trace w @
        [Prompt ''Enter city name: '',
         Print [Lit ''No API key provided. Set OPENWEATHER_API_KEY environment variable.'']]\<rparr>)"
  by (simp add: dashboard_choice_def display_openweather_def seq_def bind_def input_line_def
      get_openweather_without_key ret_def)

lemma other_choices_without_key:
  assumes "choice \<noteq> ''8''"
  shows "dashboard_choice E choice (w\<lparr>OPENWEATHER_API_KEY := None\<rparr>) =
           (fst (dashboard_choice E choice (w\<lparr>OPENWEATHER_API_KEY := Some key\<rparr>)),
            (snd (dashboard_choice E choice (w\<lparr>OPENWEATHER_API_KEY := Some key\<rparr>)))
               \<lparr>OPENWEATHER_API_KEY := None\<rparr>)"
proof -
  from key_blind_other_choices[OF assms, of E]
  have kb: "\<And>k w. dashboard_choice E choice (w\<lparr>OPENWEATHER_API_KEY := k\<rparr>)
             = (fst (dashboard_choice E choice w),
                (snd (dashboard_choice E choice w))\<lparr>OPENWEATHER_API_KEY := k\<rparr>)"
    by (simp add: key_blind_def)
  show ?thesis
    by (simp add: kb[of None w] kb[of "Some key" w])
qed

text \<open>
  Claim C8. When the environment has no \<open>OPENWEATHER_API_KEY\<close>, loading the module does
  not fail: it prints the warning, once, and goes on. The one action that needs the key,
  \<open>get_openweather\<close>, then reports the missing key and returns \<open>None\<close> without an HTTP
  request. Every other choice of the menu does with the key missing exactly what it does
  with a key present: same outcome, same input read, same trace.
\<close>

theorem missing_api_key_disables_one_action:
  assumes "environ ''OPENWEATHER_API_KEY'' = None"
  shows "module_init environ w =
           (Return (), w\<lparr>trace := trace w @
              [Print [Lit ''Warning: OPENWEATHER_API_KEY not set! OpenWeatherMap requests may fail.'']],
              OPENWEATHER_API_KEY := None\<rparr>)
       \<and> get_openweather E city (snd (module_init environ w)) =
           (Return JNull, (snd (module_init environ w))\<lparr>trace := trace (snd (module_init environ w)) @
              [Print [Lit ''No API key provided. Set OPENWEATHER_API_KEY environment variable.'']]\<rparr>)
       \<and> (choice \<noteq> ''8'' \<longrightarrow>
           dashboard_choice E choice (w'\<lparr>OPENWEATHER_API_KEY := None\<rparr>) =
             (fst (dashboard_choice E choice (w'\<lparr>OPENWEATHER_API_KEY := Some key\<rparr>)),
              (snd (dashboard_choice E choice (w'\<lparr>OPENWEATHER_API_KEY := Some key\<rparr>)))
                 \<lparr>OPENWEATHER_API_KEY := None\<rparr>))"
proof (intro conjI impI)
  show 1: "module_init environ w =
           (Return (), w\<lparr>trace := trace w @
              [Print [Lit ''Warning: OPENWEATHER_API_KEY not set! OpenWeatherMap requests may fail.'']],
              OPENWEATHER_API_KEY := None\<rparr>)"
    using assms by (rule module_init_without_key)
  show "get_openweather E city (snd (module_init environ w)) =
           (Return JNull, (snd (module_init environ w))\<lparr>trace := trace (snd (module_init environ w)) @
              [Print [Lit ''No API key provided. Set OPENWEATHER_API_KEY environment variable.'']]\<rparr>)"
    by (rule get_openweather_without_key) (simp add: 1)
next
  assume "choice \<noteq> ''8''"
  then show "dashboard_choice E choice (w'\<lparr>OPENWEATHER_API_KEY := None\<rparr>) =
           (fst (dashboard_choice E choice (w'\<lparr>OPENWEATHER_API_KEY := Some key\<rparr>)),
            (snd (dashboard_choice E choice (w'\<lparr>OPENWEATHER_API_KEY := Some key\<rparr>)))
               \<lparr>OPENWEATHER_API_KEY := None\<rparr>)"
    by (rule other_choices_without_key)
qed


theorem missing_api_key_disables_one_action_witness:
  "Map.empty ''OPENWEATHER_API_KEY'' = (None :: string option)
   \<and> module_init Map.empty (fresh []) =
       (Return (), (fresh [])\<lparr>trace :=
          [Print [Lit ''Warning: OPENWEATHER_API_KEY not set! OpenWeatherMap requests may fail.'']]\<rparr>)
   \<and> get_openweather network_down ''Pune'' (snd (module_init Map.empty (fresh []))) =
       (Return JNull, (fresh [])\<lparr>trace :=
          [Print [Lit ''Warning: OPENWEATHER_API_KEY not set! OpenWeatherMap requests may fail.''],
           Print [Lit ''No API key provided. Set OPENWEATHER_API_KEY environment variable.'']]\<rparr>)
   \<and> ''1'' \<noteq> ''8''
   \<and> dashboard_choice network_down ''1'' ((fresh [''delhi''])\<lparr>OPENWEATHER_API_KEY := None\<rparr>) =
       (fst (dashboard_choice network_down ''1'' ((fresh [''delhi''])\<lparr>OPENWEATHER_API_KEY := Some ''k''\<rparr>)),
        (snd (dashboard_choice network_down ''1'' ((fresh [''delhi''])\<lparr>OPENWEATHER_API_KEY := Some ''k''\<rparr>)))
           \<lparr>OPENWEATHER_API_KEY := None\<rparr>)"
proof -
  have none: "Map.empty ''OPENWEATHER_API_KEY'' = (None :: string option)"
    by simp
  note t = missing_api_key_disables_one_action[OF none, of "fresh []" network_down "''Pune''"
      "''1''" "fresh [''delhi'']" "''k''"]
  from t have a: "module_init Map.empty (fresh []) =
       (Return (), (fresh [])\<lparr>trace :=
          [Print [Lit ''Warning: OPENWEATHER_API_KEY not set! OpenWeatherMap requests may fail.'']]\<rparr>)"
    by (simp add: fresh_def)
  from t have b: "get_openweather network_down ''Pune'' (snd (module_init Map.empty (fresh []))) =
       (Return JNull, (fresh [])\<lparr>trace :=
          [Print [Lit ''Warning: OPENWEATHER_API_KEY not set! OpenWeatherMap requests may fail.''],
           Print [Lit ''No API key provided. Set OPENWEATHER_API_KEY environment variable.'']]\<rparr>)"
    unfolding a by (simp add: fresh_def)
  from t have c: "dashboard_choice network_down ''1'' ((fresh [''delhi''])\<lparr>OPENWEATHER_API_KEY := None\<rparr>) =
       (fst (dashboard_choice network_down ''1'' ((fresh [''delhi''])\<lparr>OPENWEATHER_API_KEY := Some ''k''\<rparr>)),
        (snd (dashboard_choice network_down ''1'' ((fresh [''delhi''])\<lparr>OPENWEATHER_API_KEY := Some ''k''\<rparr>)))
           \<lparr>OPENWEATHER_API_KEY := None\<rparr>)"
    by simp
  from none a b c show ?thesis by simp
qed

subsection \<open>The last created post\<close>





























subsection \<open>Whole runs\<close>

lemma seq_menu_run:
  "seq print_menu n w = n (w\<lparr>trace := trace w @ map (\<lambda>s. Print [Lit s]) menu_lines\<rparr>)"
  by (simp add: seq_def bind_def print_menu_run)

lemma http_count_says [simp]: "http_count (map (\<lambda>s. Print [Lit s]) ls) = 0"
  by (induction ls) simp_all

lemma file_events_says [simp]: "file_events (map (\<lambda>s. Print [Lit s]) ls) = []"
  by (induction ls) simp_all









section \<open>Part 5: which exceptions leave an action\<close>


lemma ro_raise: "X e \<Longrightarrow> raises_only X (raise e)"
  by (simp add: raises_only_def raise_def)
















subsection \<open>No exception of the \<open>RequestException\<close> family leaves an action\<close>






















subsection \<open>When every request fails\<close>





























subsection \<open>The dispatcher\<close>










end
